theory Spec2Isabelle
  imports Complex_Main "HOL-Library.Signed_Division"
begin

section \<open>Errors and C++ library functions used by the models\<close>

text \<open>
  Exceptions are values. \<open>InvalidArgument\<close> is \<open>std::invalid_argument\<close>,
  \<open>OutOfRange\<close> is \<open>std::out_of_range\<close> (thrown by \<open>std::stoi\<close>),
  \<open>JsonError\<close> is an exception of the JSON library (a missing key in \<open>at\<close>, a value of
  the wrong type in \<open>get\<close>), \<open>UndefinedBehaviour\<close> marks an access the C++
  standard leaves undefined (an unchecked vector index out of range, a division by zero),
  and \<open>NoFreshId\<close> says that a \<open>while\<close> loop drawing random identifiers
  has used up every draw it was given without finding an unused one.
\<close>

datatype error = InvalidArgument | OutOfRange | JsonError | UndefinedBehaviour | NoFreshId

text \<open>Sequencing of two steps, the first of which may throw.\<close>

definition bind_result :: "error + 'a \<Rightarrow> ('a \<Rightarrow> error + 'b) \<Rightarrow> error + 'b" where
  "bind_result r f = (case r of Inl e \<Rightarrow> Inl e | Inr v \<Rightarrow> f v)"

text \<open>The value of a \<open>char\<close> converted to \<open>int\<close>; \<open>char\<close> is signed on the
  x86 targets the project builds for.\<close>

definition char_to_int :: "char \<Rightarrow> int" where
  "char_to_int c = (let n = of_char c in if n \<ge> 128 then n - 256 else n)"

definition INT_MAX :: int where
  "INT_MAX = 2147483647"

definition INT_MIN :: int where
  "INT_MIN = - 2147483648"

definition isdigit :: "char \<Rightarrow> bool" where
  "isdigit c = (c \<in> set ''0123456789'')"

definition isspace :: "char \<Rightarrow> bool" where
  "isspace c = (c \<in> {CHR '' '', CHR 0x09, CHR 0x0A, CHR 0x0B, CHR 0x0C, CHR 0x0D})"

definition digit_value :: "char \<Rightarrow> int" where
  "digit_value c = of_char c - 48"

text \<open>The number a string of decimal digits denotes, most significant digit first.\<close>

definition decimal :: "string \<Rightarrow> int" where
  "decimal ds = foldl (\<lambda>acc c. 10 * acc + digit_value c) 0 ds"

text \<open>\<open>s.find_first_not_of(chars)\<close>: the index of the first character of \<open>s\<close> that is
  not in \<open>chars\<close>; \<open>None\<close> is \<open>std::string::npos\<close>.\<close>

fun find_first_not_of :: "string \<Rightarrow> string \<Rightarrow> nat option" where
  "find_first_not_of [] chars = None"
| "find_first_not_of (c # cs) chars =
     (if c \<notin> set chars then Some 0 else map_option Suc (find_first_not_of cs chars))"

text \<open>\<open>s.substr(pos, n)\<close> for \<open>pos \<le> s.size()\<close>, the only way the models call it.\<close>

definition substr :: "string \<Rightarrow> nat \<Rightarrow> nat \<Rightarrow> string" where
  "substr s pos n = take n (drop pos s)"

text \<open>
  \<open>std::stoi(s)\<close> in base 10: leading white space is skipped, one sign is accepted, the
  longest run of digits is read and what follows it is ignored. No digit at all throws
  \<open>std::invalid_argument\<close>; a value outside \<open>int\<close> throws \<open>std::out_of_range\<close>.
\<close>

definition stoi :: "string \<Rightarrow> error + int" where
  "stoi s =
     (let s1 = dropWhile isspace s;
          neg = (s1 \<noteq> [] \<and> hd s1 = CHR ''-'');
          s2 = (if s1 \<noteq> [] \<and> (hd s1 = CHR ''-'' \<or> hd s1 = CHR ''+'') then tl s1 else s1);
          ds = takeWhile isdigit s2
      in if ds = [] then Inl InvalidArgument
         else let v = (if neg then - decimal ds else decimal ds)
              in if v < INT_MIN \<or> INT_MAX < v then Inl OutOfRange else Inr v)"

text \<open>\<open>s.find_last_not_of(chars)\<close>.\<close>

definition find_last_not_of :: "string \<Rightarrow> string \<Rightarrow> nat option" where
  "find_last_not_of s chars =
     map_option (\<lambda>i. length s - 1 - i) (find_first_not_of (rev s) chars)"

text \<open>\<open>s.find(c)\<close> and \<open>s.find(c, pos)\<close>.\<close>

fun find_char :: "string \<Rightarrow> char \<Rightarrow> nat option" where
  "find_char [] c = None"
| "find_char (x # xs) c = (if x = c then Some 0 else map_option Suc (find_char xs c))"

definition find_char_from :: "string \<Rightarrow> char \<Rightarrow> nat \<Rightarrow> nat option" where
  "find_char_from s c pos = map_option (\<lambda>i. i + pos) (find_char (drop pos s) c)"

text \<open>\<open>std::to_string\<close> of an \<open>int\<close>.\<close>

definition digit_char :: "nat \<Rightarrow> char" where
  "digit_char d = ''0123456789'' ! d"

fun nat_to_string :: "nat \<Rightarrow> string" where
  "nat_to_string n =
     (if n < 10 then [digit_char n] else nat_to_string (n div 10) @ [digit_char (n mod 10)])"

declare nat_to_string.simps [simp del]

definition to_string :: "int \<Rightarrow> string" where
  "to_string i = (if i < 0 then CHR ''-'' # nat_to_string (nat (- i)) else nat_to_string (nat i))"

section \<open>Floating point numbers\<close>

text \<open>
  The types \<open>float\<close> and \<open>double\<close> of the source are the IEEE 754 formats binary32 and
  binary64. A value is a finite number, given by its exact rational value, an infinity or
  a NaN. The two zeros are one value: none of the functions below divides by a float,
  prints one or reads its sign bit. In a format with \<open>p\<close> bits of precision and largest
  exponent \<open>emax\<close> the finite values are the multiples \<open>n * 2 ^ k / 2 ^ (emax + p - 2)\<close>
  of the smallest subnormal number with \<open>n < 2 ^ p\<close> and \<open>k \<le> 2 * emax - 1\<close>.
\<close>

datatype floating = Finite rat | PlusInfinity | MinusInfinity | NaN

type_synonym float = floating

type_synonym double = floating

text \<open>The distance between neighbouring values of the format around \<open>m\<close>, both counted in
  units of the smallest subnormal number.\<close>

function spacing :: "nat \<Rightarrow> nat \<Rightarrow> nat" where
  "spacing p m = (if m < 2 ^ p then 1 else 2 * spacing p (m div 2))"
  by pat_completeness auto

termination
proof (relation "measure snd")
  show "wf (measure snd)" by simp
next
  fix p m :: nat
  assume "\<not> m < 2 ^ p"
  then have "0 < m" by (cases "m = 0") simp_all
  then show "((p, m div 2), (p, m)) \<in> measure snd" by simp
qed

declare spacing.simps [simp del]

text \<open>Rounding to the nearest integer, a tie to the even one.\<close>

definition round_half_even :: "rat \<Rightarrow> int" where
  "round_half_even q =
     (let f = \<lfloor>q\<rfloor>
      in if q - of_int f < 1 / 2 then f
         else if 1 / 2 < q - of_int f then f + 1
         else if even f then f else f + 1)"

text \<open>The multiple of \<open>u\<close> nearest to \<open>x\<close>.\<close>

definition quantize :: "nat \<Rightarrow> rat \<Rightarrow> rat" where
  "quantize u x = of_int (round_half_even (x / of_nat u)) * of_nat u"

text \<open>Rounding a magnitude \<open>x\<close>, counted in units of the smallest subnormal number, to a
  value of the format with \<open>p\<close> bits of precision.\<close>

definition round_magnitude :: "nat \<Rightarrow> rat \<Rightarrow> rat" where
  "round_magnitude p x = quantize (spacing p (nat \<lfloor>x\<rfloor>)) x"

text \<open>
  Rounding an exact result to the format (\<open>roundTiesToEven\<close>, the rounding in force when a
  program starts): a magnitude of at least \<open>(2 - 2 ^ -p) * 2 ^ emax\<close> overflows to an
  infinity, every other number goes to the nearest value of the format.
\<close>

definition round_to_format :: "nat \<Rightarrow> nat \<Rightarrow> rat \<Rightarrow> floating" where
  "round_to_format p emax r =
     (if (2 - 1 / 2 ^ p) * 2 ^ emax \<le> \<bar>r\<bar> then (if 0 < r then PlusInfinity else MinusInfinity)
      else Finite (sgn r * (round_magnitude p (\<bar>r\<bar> * 2 ^ (emax + p - 2)) / 2 ^ (emax + p - 2))))"

definition float_round :: "rat \<Rightarrow> float" where
  "float_round r = round_to_format 24 127 r"

definition double_round :: "rat \<Rightarrow> double" where
  "double_round r = round_to_format 53 1023 r"

text \<open>
  The operators \<open>+\<close>, \<open>-\<close> and \<open>*\<close> on two \<open>float\<close> operands: the exact result, rounded
  to \<open>float\<close>. Every operation is rounded on its own, as on the x86-64 targets, whose
  \<open>float\<close> arithmetic is done in \<open>float\<close>; a product is not fused with a sum.
\<close>

fun float_add :: "float \<Rightarrow> float \<Rightarrow> float" where
  "float_add (Finite x) (Finite y) = float_round (x + y)"
| "float_add NaN b = NaN"
| "float_add a NaN = NaN"
| "float_add PlusInfinity MinusInfinity = NaN"
| "float_add MinusInfinity PlusInfinity = NaN"
| "float_add PlusInfinity b = PlusInfinity"
| "float_add MinusInfinity b = MinusInfinity"
| "float_add a PlusInfinity = PlusInfinity"
| "float_add a MinusInfinity = MinusInfinity"

fun float_neg :: "float \<Rightarrow> float" where
  "float_neg (Finite x) = Finite (- x)"
| "float_neg PlusInfinity = MinusInfinity"
| "float_neg MinusInfinity = PlusInfinity"
| "float_neg NaN = NaN"

definition float_sub :: "float \<Rightarrow> float \<Rightarrow> float" where
  "float_sub a b = float_add a (float_neg b)"

text \<open>The sign of a value that is not a NaN: -1, 0 or 1.\<close>

fun sign :: "floating \<Rightarrow> rat" where
  "sign (Finite x) = sgn x"
| "sign PlusInfinity = 1"
| "sign MinusInfinity = - 1"
| "sign NaN = 0"

fun float_mul :: "float \<Rightarrow> float \<Rightarrow> float" where
  "float_mul (Finite x) (Finite y) = float_round (x * y)"
| "float_mul NaN b = NaN"
| "float_mul a NaN = NaN"
| "float_mul a b =
     (if sign a * sign b = 0 then NaN
      else if 0 < sign a * sign b then PlusInfinity else MinusInfinity)"

text \<open>The comparisons \<open>a < b\<close> and \<open>a <= b\<close>: false when an operand is a NaN.\<close>

fun less_floating :: "floating \<Rightarrow> floating \<Rightarrow> bool" where
  "less_floating (Finite x) (Finite y) = (x < y)"
| "less_floating NaN b = False"
| "less_floating a NaN = False"
| "less_floating a MinusInfinity = False"
| "less_floating PlusInfinity b = False"
| "less_floating a PlusInfinity = True"
| "less_floating MinusInfinity b = True"

definition le_floating :: "floating \<Rightarrow> floating \<Rightarrow> bool" where
  "le_floating a b = (a \<noteq> NaN \<and> b \<noteq> NaN \<and> (less_floating a b \<or> a = b))"

text \<open>\<open>std::min(a, b)\<close>, which is \<open>(b < a) ? b : a\<close>.\<close>

definition std_min :: "floating \<Rightarrow> floating \<Rightarrow> floating" where
  "std_min a b = (if less_floating b a then b else a)"

section \<open>JSON values\<close>

text \<open>
  The values of the JSON library the project uses (\<open>nlohmann::json\<close>). An object is an
  association list; \<open>map_of\<close> reads it, so the first binding of a key counts. A floating
  point number is a \<open>double\<close>.
\<close>

datatype json =
    JNull
  | JBool bool
  | JInt int
  | JFloat double
  | JString string
  | JArray "json list"
  | JObject "(string \<times> json) list"

text \<open>\<open>j.contains(key)\<close>: false on anything that is not an object.\<close>

fun contains :: "json \<Rightarrow> string \<Rightarrow> bool" where
  "contains (JObject kvs) key = (map_of kvs key \<noteq> None)"
| "contains _ key = False"

text \<open>\<open>j.at(key)\<close> (\<open>at\<close> is taken in HOL): throws when \<open>j\<close> is not an object or has no such key.\<close>

fun at_key :: "json \<Rightarrow> string \<Rightarrow> error + json" where
  "at_key (JObject kvs) key = (case map_of kvs key of None \<Rightarrow> Inl JsonError | Some v \<Rightarrow> Inr v)"
| "at_key _ key = Inl JsonError"

fun get_string :: "json \<Rightarrow> error + string" where
  "get_string (JString s) = Inr s"
| "get_string _ = Inl JsonError"

fun get_bool :: "json \<Rightarrow> error + bool" where
  "get_bool (JBool b) = Inr b"
| "get_bool _ = Inl JsonError"

text \<open>The conversion of a 64-bit integer to \<open>int\<close> keeps the low 32 bits.\<close>

definition to_int32 :: "int \<Rightarrow> int" where
  "to_int32 n = (n + 2147483648) mod 4294967296 - 2147483648"

text \<open>
  \<open>j.get<int>()\<close>: every number and every boolean converts; a floating point number is
  truncated towards zero, and the conversion is undefined when the result does not fit.
\<close>

fun get_int :: "json \<Rightarrow> error + int" where
  "get_int (JInt n) = Inr (to_int32 n)"
| "get_int (JBool b) = Inr (if b then 1 else 0)"
| "get_int (JFloat (Finite x)) =
     (let t = (if 0 \<le> x then \<lfloor>x\<rfloor> else \<lceil>x\<rceil>)
      in if INT_MIN \<le> t \<and> t \<le> INT_MAX then Inr t else Inl UndefinedBehaviour)"
| "get_int (JFloat x) = Inl UndefinedBehaviour"
| "get_int _ = Inl JsonError"

text \<open>\<open>j.get<double>()\<close>: only a number converts, an integer by rounding it to \<open>double\<close>;
  a boolean is a type error here, \<open>double\<close> being the library's own floating point type.\<close>

fun get_double :: "json \<Rightarrow> error + double" where
  "get_double (JInt n) = Inr (double_round (of_int n))"
| "get_double (JFloat x) = Inr x"
| "get_double _ = Inl JsonError"

text \<open>Converting every element of an array, stopping at the first exception.\<close>

fun get_all :: "(json \<Rightarrow> error + 'a) \<Rightarrow> json list \<Rightarrow> error + 'a list" where
  "get_all g [] = Inr []"
| "get_all g (j # js) =
     (case g j of
        Inl e \<Rightarrow> Inl e
      | Inr v \<Rightarrow> (case get_all g js of Inl e \<Rightarrow> Inl e | Inr vs \<Rightarrow> Inr (v # vs)))"

text \<open>\<open>j.get<std::vector<T>>()\<close>, with \<open>g\<close> the conversion to \<open>T\<close>.\<close>

fun get_vector :: "(json \<Rightarrow> error + 'a) \<Rightarrow> json \<Rightarrow> error + 'a list" where
  "get_vector g (JArray js) = get_all g js"
| "get_vector g _ = Inl JsonError"

text \<open>\<open>j.at(key).get<T>()\<close>, with \<open>g\<close> the conversion to \<open>T\<close>.\<close>

definition get_at :: "(json \<Rightarrow> error + 'a) \<Rightarrow> json \<Rightarrow> string \<Rightarrow> error + 'a" where
  "get_at g j key = (case at_key j key of Inl e \<Rightarrow> Inl e | Inr v \<Rightarrow> g v)"

text \<open>The loop over \<open>required_keys\<close> that every JSON constructor starts with.\<close>

definition has_required_keys :: "json \<Rightarrow> string list \<Rightarrow> bool" where
  "has_required_keys j required_keys = list_all (contains j) required_keys"

section \<open>AircraftModel\<close>

record AircraftModel =
  aircraftId :: string
  model :: string
  capacity :: int
  numOfRowSeats :: int
  numOfRows :: int

definition MAX_SEATS_PER_ROW :: int where
  "MAX_SEATS_PER_ROW = 26"

text \<open>
  The draws of \<open>IDGenerator::generateUniqueID\<close> are an input: the list of the strings
  the random generator will return, in order. The loop every constructor runs,
  \<^verbatim>\<open>id = prefix + generateUniqueID(); while (repository has id) id = prefix + generateUniqueID();\<close>
  takes draws until one is unused and returns it with the draws that remain. It may run
  forever; \<open>None\<close> says that the draws given did not end it.
\<close>

fun fresh_id :: "string \<Rightarrow> (string \<Rightarrow> bool) \<Rightarrow> string list \<Rightarrow> (string \<times> string list) option" where
  "fresh_id prefix taken [] = None"
| "fresh_id prefix taken (d # ds) =
     (if taken (prefix @ d) then fresh_id prefix taken ds else Some (prefix @ d, ds))"

text \<open>
  The checks both constructors of \<open>AircraftModel\<close> make, in the order of the source. The
  operands of \<open>%\<close> are positive when it is reached.
\<close>

definition aircraft_checks :: "string \<Rightarrow> int \<Rightarrow> int \<Rightarrow> error option" where
  "aircraft_checks mdl cap seats =
     (if mdl = [] then Some InvalidArgument
      else if cap \<le> 0 then Some InvalidArgument
      else if seats \<le> 0 then Some InvalidArgument
      else if seats > MAX_SEATS_PER_ROW then Some InvalidArgument
      else if cap smod seats \<noteq> 0 then Some InvalidArgument
      else None)"

text \<open>\<open>AircraftModel::AircraftModel(model, capacity, numOfRowSeats)\<close>, given the aircraft
  repository and the draws; it returns the draws left.\<close>

definition AircraftModel_new ::
  "(string \<rightharpoonup> AircraftModel) \<Rightarrow> string list \<Rightarrow> string \<Rightarrow> int \<Rightarrow> int
     \<Rightarrow> (error + AircraftModel) \<times> string list" where
  "AircraftModel_new repo draws mdl cap seats =
     (case aircraft_checks mdl cap seats of
        Some e \<Rightarrow> (Inl e, draws)
      | None \<Rightarrow>
          (case fresh_id ''AC-'' (\<lambda>i. repo i \<noteq> None) draws of
             None \<Rightarrow> (Inl NoFreshId, [])
           | Some (newAircraftId, rest) \<Rightarrow>
               (Inr \<lparr>aircraftId = newAircraftId, model = mdl, capacity = cap,
                     numOfRowSeats = seats, numOfRows = cap sdiv seats\<rparr>, rest)))"

text \<open>\<open>AircraftModel::AircraftModel(const JSON&)\<close>.\<close>

definition AircraftModel_from_json :: "json \<Rightarrow> error + AircraftModel" where
  "AircraftModel_from_json j =
     (if \<not> has_required_keys j [''id'', ''model'', ''capacity'', ''numOfRowSeats'']
      then Inl InvalidArgument
      else
        bind_result (get_at get_string j ''id'') (\<lambda>ident.
        if substr ident 0 3 \<noteq> ''AC-'' then Inl InvalidArgument
        else
          bind_result (get_at get_string j ''model'') (\<lambda>mdl.
          bind_result (get_at get_int j ''capacity'') (\<lambda>cap.
          bind_result (get_at get_int j ''numOfRowSeats'') (\<lambda>seats.
          (case aircraft_checks mdl cap seats of
             Some e \<Rightarrow> Inl e
           | None \<Rightarrow>
               Inr \<lparr>aircraftId = ident, model = mdl, capacity = cap,
                    numOfRowSeats = seats, numOfRows = cap sdiv seats\<rparr>))))))"

text \<open>\<open>AircraftModel::to_json\<close>.\<close>

definition AircraftModel_to_json :: "AircraftModel \<Rightarrow> json" where
  "AircraftModel_to_json a =
     JObject [(''id'', JString (aircraftId a)), (''model'', JString (model a)),
              (''capacity'', JInt (capacity a)), (''numOfRowSeats'', JInt (numOfRowSeats a))]"

text \<open>
  The setters. \<open>setCapacity\<close> and \<open>setNumOfRowSeats\<close> divide by a member that a
  default-constructed object may hold as zero, where \<open>%\<close> is undefined.
\<close>

definition setModel :: "AircraftModel \<Rightarrow> string \<Rightarrow> AircraftModel" where
  "setModel a mdl = a\<lparr>model := mdl\<rparr>"

definition setCapacity :: "AircraftModel \<Rightarrow> int \<Rightarrow> error + AircraftModel" where
  "setCapacity a cap =
     (if cap \<le> 0 then Inl InvalidArgument
      else if numOfRowSeats a = 0 then Inl UndefinedBehaviour
      else if cap smod numOfRowSeats a \<noteq> 0 then Inl InvalidArgument
      else Inr (a\<lparr>capacity := cap, numOfRows := cap sdiv numOfRowSeats a\<rparr>))"

definition setNumOfRowSeats :: "AircraftModel \<Rightarrow> int \<Rightarrow> error + AircraftModel" where
  "setNumOfRowSeats a seats =
     (if seats \<le> 0 then Inl InvalidArgument
      else if seats > MAX_SEATS_PER_ROW then Inl InvalidArgument
      else if capacity a smod seats \<noteq> 0 then Inl InvalidArgument
      else Inr (a\<lparr>numOfRowSeats := seats, numOfRows := capacity a sdiv seats\<rparr>))"

section \<open>DateTime\<close>

record DateTime =
  year :: int
  month :: int
  day :: int
  hour :: int
  minute :: int

text \<open>\<open>DateTime::isValid\<close>. The year is not negative where \<open>%\<close> is applied to it.\<close>

definition isValid :: "DateTime \<Rightarrow> bool" where
  "isValid t =
     (if year t < 0 \<or> month t < 1 \<or> month t > 12 \<or> day t < 1 \<or> day t > 31
         \<or> hour t < 0 \<or> hour t > 23 \<or> minute t < 0 \<or> minute t > 59
      then False
      else if (month t = 4 \<or> month t = 6 \<or> month t = 9 \<or> month t = 11) \<and> day t > 30 then False
      else if month t = 2 then
        (let isLeap = ((year t smod 4 = 0 \<and> year t smod 100 \<noteq> 0) \<or> year t smod 400 = 0)
         in if (isLeap \<and> day t > 29) \<or> (\<not> isLeap \<and> day t > 28) then False else True)
      else True)"

text \<open>\<open>DateTime::operator<=\<close>; on equal values it returns false, as the source does.\<close>

definition DateTime_le :: "DateTime \<Rightarrow> DateTime \<Rightarrow> bool" where
  "DateTime_le t other =
     (if year t \<noteq> year other then year t < year other
      else if month t \<noteq> month other then month t < month other
      else if day t \<noteq> day other then day t < day other
      else if hour t \<noteq> hour other then hour t < hour other
      else minute t < minute other)"

text \<open>\<open>DateTime::toString\<close>.\<close>

definition pad2 :: "int \<Rightarrow> string" where
  "pad2 n = (if n < 10 then ''0'' else []) @ to_string n"

definition toString :: "DateTime \<Rightarrow> string" where
  "toString t =
     to_string (year t) @ ''-'' @ pad2 (month t) @ ''-'' @ pad2 (day t) @ '' '' @
     pad2 (hour t) @ '':'' @ pad2 (minute t)"

text \<open>
  \<open>DateTime::parseDateOnly\<close> and \<open>DateTime::parseTimeOnly\<close>: every exception of
  \<open>std::stoi\<close> is caught and replaced by \<open>std::invalid_argument\<close>.
\<close>

definition parseDateOnly :: "string \<Rightarrow> error + int \<times> int \<times> int" where
  "parseDateOnly dateStr =
     (case find_char dateStr CHR ''-'' of
        None \<Rightarrow> Inl InvalidArgument
      | Some firstDash \<Rightarrow>
          (case find_char_from dateStr CHR ''-'' (firstDash + 1) of
             None \<Rightarrow> Inl InvalidArgument
           | Some secondDash \<Rightarrow>
               (case stoi (substr dateStr 0 firstDash) of
                  Inl e \<Rightarrow> Inl InvalidArgument
                | Inr y \<Rightarrow>
                    (case stoi (substr dateStr (firstDash + 1) (secondDash - firstDash - 1)) of
                       Inl e \<Rightarrow> Inl InvalidArgument
                     | Inr m \<Rightarrow>
                         (case stoi (drop (secondDash + 1) dateStr) of
                            Inl e \<Rightarrow> Inl InvalidArgument
                          | Inr d \<Rightarrow> Inr (y, m, d))))))"

definition parseTimeOnly :: "string \<Rightarrow> error + int \<times> int" where
  "parseTimeOnly timeStr =
     (case find_char timeStr CHR '':'' of
        None \<Rightarrow> Inl InvalidArgument
      | Some colonPos \<Rightarrow>
          (case stoi (substr timeStr 0 colonPos) of
             Inl e \<Rightarrow> Inl InvalidArgument
           | Inr h \<Rightarrow>
               (case stoi (drop (colonPos + 1) timeStr) of
                  Inl e \<Rightarrow> Inl InvalidArgument
                | Inr mi \<Rightarrow> Inr (h, mi))))"

text \<open>The two \<open>erase\<close> calls that trim blanks and tabs at both ends.\<close>

definition trim :: "string \<Rightarrow> string" where
  "trim s =
     (let t1 = (case find_first_not_of s [CHR '' '', CHR 0x09] of None \<Rightarrow> [] | Some i \<Rightarrow> drop i s)
      in case find_last_not_of t1 [CHR '' '', CHR 0x09] of None \<Rightarrow> [] | Some j \<Rightarrow> take (j + 1) t1)"

text \<open>\<open>DateTime::DateTime(const std::string&)\<close>.\<close>

definition DateTime_of_string :: "string \<Rightarrow> error + DateTime" where
  "DateTime_of_string dateTimeStr =
     (let trimmed = trim dateTimeStr in
      case (case find_char trimmed CHR '' '' of
              None \<Rightarrow>
                (case parseDateOnly trimmed of
                   Inl e \<Rightarrow> Inl e
                 | Inr (y, m, d) \<Rightarrow> Inr \<lparr>year = y, month = m, day = d, hour = 0, minute = 0\<rparr>)
            | Some spacePos \<Rightarrow>
                (case parseDateOnly (substr trimmed 0 spacePos) of
                   Inl e \<Rightarrow> Inl e
                 | Inr (y, m, d) \<Rightarrow>
                     (case parseTimeOnly (drop (spacePos + 1) trimmed) of
                        Inl e \<Rightarrow> Inl e
                      | Inr (h, mi) \<Rightarrow>
                          Inr \<lparr>year = y, month = m, day = d, hour = h, minute = mi\<rparr>)))
      of Inl e \<Rightarrow> Inl e
       | Inr t \<Rightarrow> if \<not> isValid t then Inl InvalidArgument else Inr t)"

section \<open>FlightModel: seat codes\<close>


record FlightModel =
  flightId :: string
  origin :: string
  destination :: string
  departureTime :: DateTime
  arrivalTime :: DateTime
  flightAircraftId :: string
  crewMemberIds :: "string list"
  seatMap :: "bool list list"

text \<open>
  \<open>FlightModel::getSeatIndices\<close>. The aircraft repository is the map from identifiers to
  aircraft; the result keeps the source's sentinel \<open>(-1, -1)\<close>.
\<close>

definition getSeatIndices :: "(string \<rightharpoonup> AircraftModel) \<Rightarrow> FlightModel \<Rightarrow> string \<Rightarrow> int \<times> int" where
  "getSeatIndices aircrafts f seatNumber =
     (case aircrafts (flightAircraftId f) of
        None \<Rightarrow> (-1, -1)
      | Some aircraft \<Rightarrow>
          if seatNumber = [] then (-1, -1)
          else (case find_first_not_of seatNumber ''0123456789'' of
                  None \<Rightarrow> (-1, -1)
                | Some colIndex \<Rightarrow>
                    if colIndex = 0 \<or> length seatNumber - colIndex \<noteq> 1 then (-1, -1)
                    else let colChar = seatNumber ! colIndex in
                      if char_to_int colChar < char_to_int CHR ''A''
                         \<or> char_to_int colChar > numOfRowSeats aircraft + char_to_int CHR ''A'' - 1
                      then (-1, -1)
                      else (case stoi (substr seatNumber 0 colIndex) of
                              Inl e \<Rightarrow> (-1, -1)
                            | Inr rowNum \<Rightarrow>
                                if rowNum \<le> 0 \<or> rowNum > numOfRows aircraft then (-1, -1)
                                else (rowNum - 1, char_to_int colChar - char_to_int CHR ''A''))))"

definition isValidSeat :: "(string \<rightharpoonup> AircraftModel) \<Rightarrow> FlightModel \<Rightarrow> string \<Rightarrow> bool" where
  "isValidSeat aircrafts f seatNumber =
     (let seatIndices = getSeatIndices aircrafts f seatNumber
      in fst seatIndices \<noteq> -1 \<and> snd seatIndices \<noteq> -1)"

text \<open>
  \<open>FlightModel::getSeatStatus\<close> and \<open>FlightModel::setSeatStatus\<close>. The grid is indexed
  with the unchecked \<open>operator[]\<close>, so a cell the grid does not have is undefined
  behaviour. The indices are not negative when they are not the sentinel.
\<close>

definition getSeatStatus :: "(string \<rightharpoonup> AircraftModel) \<Rightarrow> FlightModel \<Rightarrow> string \<Rightarrow> error + bool" where
  "getSeatStatus aircrafts f seatNumber =
     (let seatIndices = getSeatIndices aircrafts f seatNumber in
      if fst seatIndices = -1 \<or> snd seatIndices = -1 then Inl InvalidArgument
      else let r = nat (fst seatIndices); c = nat (snd seatIndices) in
        if r < length (seatMap f) \<and> c < length (seatMap f ! r)
        then Inr (seatMap f ! r ! c)
        else Inl UndefinedBehaviour)"

definition setSeatStatus ::
  "(string \<rightharpoonup> AircraftModel) \<Rightarrow> FlightModel \<Rightarrow> string \<Rightarrow> bool \<Rightarrow> error + FlightModel" where
  "setSeatStatus aircrafts f seatNumber status =
     (let seatIndices = getSeatIndices aircrafts f seatNumber in
      if fst seatIndices = -1 \<or> snd seatIndices = -1 then Inl InvalidArgument
      else let r = nat (fst seatIndices); c = nat (snd seatIndices) in
        if r < length (seatMap f) \<and> c < length (seatMap f ! r)
        then Inr (f\<lparr>seatMap := (seatMap f)[r := (seatMap f ! r)[c := status]]\<rparr>)
        else Inl UndefinedBehaviour)"

section \<open>FlightModel: JSON\<close>

datatype CrewType = Pilot | FlightAttendant

record CrewMemberModel =
  crewId :: string
  name :: string
  crewRole :: CrewType

text \<open>The loop that looks every crew member up; it throws at the first one missing.\<close>

definition crew_exist :: "(string \<rightharpoonup> CrewMemberModel) \<Rightarrow> string list \<Rightarrow> bool" where
  "crew_exist crew ids = list_all (\<lambda>crewMemberId. crew crewMemberId \<noteq> None) ids"

text \<open>
  \<open>FlightModel::FlightModel(const JSON&)\<close>. \<open>seatMap\<close> is not among the required keys,
  so its absence is an exception of \<open>at\<close>; \<open>seatMap[0]\<close> of an empty grid is undefined.
\<close>

definition FlightModel_from_json ::
  "(string \<rightharpoonup> AircraftModel) \<Rightarrow> (string \<rightharpoonup> CrewMemberModel) \<Rightarrow> json \<Rightarrow> error + FlightModel" where
  "FlightModel_from_json aircrafts crew j =
     (if \<not> has_required_keys j [''id'', ''origin'', ''destination'', ''departureTime'',
                                  ''arrivalTime'', ''aircraftId'', ''crewMemberIds'']
      then Inl InvalidArgument
      else
        bind_result (get_at get_string j ''id'') (\<lambda>fid.
        if substr fid 0 3 \<noteq> ''FL-'' then Inl InvalidArgument
        else
          bind_result (get_at get_string j ''origin'') (\<lambda>orig.
          bind_result (get_at get_string j ''destination'') (\<lambda>dest.
          if orig = [] \<or> dest = [] then Inl InvalidArgument
          else
            bind_result (get_at get_string j ''departureTime'') (\<lambda>depStr.
            bind_result (DateTime_of_string depStr) (\<lambda>dep.
            if \<not> isValid dep then Inl InvalidArgument
            else
              bind_result (get_at get_string j ''arrivalTime'') (\<lambda>arrStr.
              bind_result (DateTime_of_string arrStr) (\<lambda>arr.
              if \<not> isValid arr then Inl InvalidArgument
              else if DateTime_le arr dep then Inl InvalidArgument
              else
                bind_result (get_at get_string j ''aircraftId'') (\<lambda>acId.
                (case aircrafts acId of
                   None \<Rightarrow> Inl InvalidArgument
                 | Some aircraft \<Rightarrow>
                     bind_result (get_at (get_vector get_string) j ''crewMemberIds'') (\<lambda>crewIds.
                     if \<not> crew_exist crew crewIds then Inl InvalidArgument
                     else
                       bind_result (get_at (get_vector (get_vector get_bool)) j ''seatMap'') (\<lambda>grid.
                       if grid = [] then Inl UndefinedBehaviour
                       else
                         (let rowSize = int (length grid); colSize = int (length (grid ! 0)) in
                          if colSize \<noteq> numOfRowSeats aircraft \<or> rowSize \<noteq> numOfRows aircraft
                          then Inl InvalidArgument
                          else Inr \<lparr>flightId = fid, origin = orig, destination = dest,
                                    departureTime = dep, arrivalTime = arr,
                                    flightAircraftId = acId, crewMemberIds = crewIds,
                                    seatMap = grid\<rparr>)))))))))))))"

text \<open>\<open>FlightModel::to_json\<close>.\<close>

definition FlightModel_to_json :: "FlightModel \<Rightarrow> json" where
  "FlightModel_to_json f =
     JObject [(''id'', JString (flightId f)), (''origin'', JString (origin f)),
              (''destination'', JString (destination f)),
              (''departureTime'', JString (toString (departureTime f))),
              (''arrivalTime'', JString (toString (arrivalTime f))),
              (''aircraftId'', JString (flightAircraftId f)),
              (''crewMemberIds'', JArray (map JString (crewMemberIds f))),
              (''seatMap'', JArray (map (\<lambda>row. JArray (map JBool row)) (seatMap f)))]"

section \<open>Users\<close>

datatype UserType = Passenger | BookingManager | Admin | INVALID

record UserModel =
  userId :: string
  username :: string
  password :: string
  role :: UserType

text \<open>
  The repository holds pointers to \<open>UserModel\<close>; the object behind one is of class
  \<open>Passenger\<close> (with its loyalty points, a \<open>float\<close>),
  \<open>BookingManager\<close> or \<open>Admin\<close>. The \<open>role\<close> field has a setter of its own, so it
  need not agree with the class.
\<close>

datatype User =
    PassengerObject UserModel float
  | BookingManagerObject UserModel
  | AdminObject UserModel

fun getRole :: "User \<Rightarrow> UserType" where
  "getRole (PassengerObject u lp) = role u"
| "getRole (BookingManagerObject u) = role u"
| "getRole (AdminObject u) = role u"

section \<open>Payments\<close>

datatype PaymentStrategy =
    CashPayment
  | CreditPayment string string string
  | PaypalPayment string

datatype PaymentStatus = COMPLETED | PENDING | REFUNDED

record PaymentModel =
  paymentId :: string
  paymentPassengerId :: string
  amount :: double
  paymentStrategy :: "PaymentStrategy option"
  paymentDate :: DateTime
  paymentStatus :: PaymentStatus

text \<open>\<open>PaypalPayment::PaypalPayment(email)\<close>.\<close>

definition PaypalPayment_new :: "string \<Rightarrow> error + PaymentStrategy" where
  "PaypalPayment_new email =
     (if email = [] then Inl InvalidArgument
      else case find_char email CHR ''@'' of
        None \<Rightarrow> Inl InvalidArgument
      | Some atPos \<Rightarrow>
          if drop (atPos + 1) email \<noteq> ''paypal.com'' then Inl InvalidArgument
          else Inr (PaypalPayment email))"

text \<open>\<open>CreditPayment::CreditPayment(number, expiry, cvv)\<close>.\<close>

definition CreditPayment_new :: "string \<Rightarrow> string \<Rightarrow> string \<Rightarrow> error + PaymentStrategy" where
  "CreditPayment_new number expiry cvv_code =
     (if number = [] \<or> expiry = [] \<or> cvv_code = [] then Inl InvalidArgument
      else if length number \<noteq> 16 then Inl InvalidArgument
      else if length expiry \<noteq> 5 \<or> expiry ! 2 \<noteq> CHR ''/'' then Inl InvalidArgument
      else if length cvv_code \<noteq> 3 then Inl InvalidArgument
      else if \<not> list_all isdigit cvv_code then Inl InvalidArgument
      else if \<not> list_all (\<lambda>c. isdigit c \<or> c = CHR ''/'') expiry then Inl InvalidArgument
      else if \<not> list_all isdigit number then Inl InvalidArgument
      else Inr (CreditPayment number expiry cvv_code))"

text \<open>\<open>PaymentStrategyFactory::createPaymentStrategy\<close>.\<close>

definition createPaymentStrategy :: "string \<Rightarrow> json \<Rightarrow> error + PaymentStrategy" where
  "createPaymentStrategy type details =
     (if type = ''paypal'' then
        (if \<not> contains details ''email'' then Inl InvalidArgument
         else
           bind_result (get_at get_string details ''email'') (\<lambda>email.
           if email = [] then Inl InvalidArgument else PaypalPayment_new email))
      else if type = ''credit'' then
        (if \<not> contains details ''cardNumber'' \<or> \<not> contains details ''expirationDate''
            \<or> \<not> contains details ''cvv''
         then Inl InvalidArgument
         else
           bind_result (get_at get_string details ''cardNumber'') (\<lambda>cardNumber.
           bind_result (get_at get_string details ''expirationDate'') (\<lambda>expirationDate.
           bind_result (get_at get_string details ''cvv'') (\<lambda>cvv.
           if cardNumber = [] \<or> expirationDate = [] \<or> cvv = [] then Inl InvalidArgument
           else CreditPayment_new cardNumber expirationDate cvv))))
      else if type = ''cash'' then Inr CashPayment
      else Inl InvalidArgument)"

fun getType :: "PaymentStrategy \<Rightarrow> string" where
  "getType CashPayment = ''cash''"
| "getType (CreditPayment number expiry cvv_code) = ''credit''"
| "getType (PaypalPayment email) = ''paypal''"

fun getDetails :: "PaymentStrategy \<Rightarrow> json" where
  "getDetails CashPayment = JNull"
| "getDetails (CreditPayment number expiry cvv_code) =
     JObject [(''cardNumber'', JString number), (''expirationDate'', JString expiry),
              (''cvv'', JString cvv_code)]"
| "getDetails (PaypalPayment email) = JObject [(''email'', JString email)]"

section \<open>Reservations\<close>

datatype ReservationStatus = CONFIRMED | CANCELLED

record ReservationModel =
  reservationId :: string
  reservationFlightId :: string
  passengerId :: string
  seatNumber :: string
  status :: ReservationStatus
  reservationPaymentId :: string

section \<open>The repositories\<close>

text \<open>
  Each singleton repository is a map from identifiers to objects. A pointer handed out by
  a repository is the object stored under the key it was looked up with, so a write
  through the pointer is an update of the map at that key. The draws of the identifier
  generator and the reading of the clock (\<open>DateTime::now\<close>) are inputs.
\<close>

record World =
  users :: "string \<rightharpoonup> User"
  flights :: "string \<rightharpoonup> FlightModel"
  aircrafts :: "string \<rightharpoonup> AircraftModel"
  crewMembers :: "string \<rightharpoonup> CrewMemberModel"
  payments :: "string \<rightharpoonup> PaymentModel"
  reservations :: "string \<rightharpoonup> ReservationModel"
  idDraws :: "string list"
  clock :: DateTime

text \<open>\<open>PaymentRepository::addPayment\<close> and \<open>ReservationRepository::addReservation\<close>,
  \<open>deleteReservation\<close>.\<close>

definition addPayment :: "World \<Rightarrow> PaymentModel \<Rightarrow> bool \<times> World" where
  "addPayment w newPayment =
     (if payments w (paymentId newPayment) \<noteq> None then (False, w)
      else (True, w\<lparr>payments := (payments w)(paymentId newPayment \<mapsto> newPayment)\<rparr>))"

definition Repository_addReservation :: "World \<Rightarrow> ReservationModel \<Rightarrow> bool \<times> World" where
  "Repository_addReservation w newReservation =
     (if reservations w (reservationId newReservation) \<noteq> None then (False, w)
      else (True, w\<lparr>reservations :=
                      (reservations w)(reservationId newReservation \<mapsto> newReservation)\<rparr>))"

definition Repository_deleteReservation :: "World \<Rightarrow> string \<Rightarrow> bool \<times> World" where
  "Repository_deleteReservation w rid =
     (if reservations w rid = None then (False, w)
      else (True, w\<lparr>reservations := (reservations w)(rid := None)\<rparr>))"

section \<open>PaymentModel and PaymentService\<close>

text \<open>
  \<open>PaymentModel::PaymentModel(passengerId, amount, strategy, status, paymentDate)\<close>. The
  strategy is a pointer that may be null.
\<close>

definition PaymentModel_new ::
  "World \<Rightarrow> string \<Rightarrow> double \<Rightarrow> PaymentStrategy option \<Rightarrow> PaymentStatus \<Rightarrow> DateTime
     \<Rightarrow> (error + PaymentModel) \<times> World" where
  "PaymentModel_new w pid amt strategy st date =
     (if pid = [] \<or> le_floating amt (Finite 0) \<or> strategy = None then (Inl InvalidArgument, w)
      else if users w pid = None then (Inl InvalidArgument, w)
      else case fresh_id ''PAY-'' (\<lambda>i. payments w i \<noteq> None) (idDraws w) of
        None \<Rightarrow> (Inl NoFreshId, w\<lparr>idDraws := []\<rparr>)
      | Some (ident, rest) \<Rightarrow>
          (Inr \<lparr>paymentId = ident, paymentPassengerId = pid, amount = amt,
                paymentStrategy = strategy, paymentDate = (if isValid date then date else clock w),
                paymentStatus = st\<rparr>,
           w\<lparr>idDraws := rest\<rparr>))"

text \<open>\<open>PaymentModel::to_json\<close>: the \<open>switch\<close> on the status has the cases
  \<open>COMPLETED\<close> and \<open>REFUNDED\<close> and a default.\<close>

definition PaymentModel_to_json :: "PaymentModel \<Rightarrow> json" where
  "PaymentModel_to_json p =
     JObject [(''id'', JString (paymentId p)),
              (''passengerId'', JString (paymentPassengerId p)),
              (''amount'', JFloat (amount p)),
              (''method'', JString (case paymentStrategy p of Some s \<Rightarrow> getType s | None \<Rightarrow> ''UNKNOWN'')),
              (''paymentDate'', JString (toString (paymentDate p))),
              (''details'', (case paymentStrategy p of Some s \<Rightarrow> getDetails s | None \<Rightarrow> JNull)),
              (''status'', JString (case paymentStatus p of
                                      COMPLETED \<Rightarrow> ''COMPLETED''
                                    | REFUNDED \<Rightarrow> ''REFUNDED''
                                    | _ \<Rightarrow> ''UNKNOWN''))]"

text \<open>\<open>PaymentModel::PaymentModel(const JSON&)\<close>.\<close>

definition PaymentModel_from_json :: "World \<Rightarrow> json \<Rightarrow> error + PaymentModel" where
  "PaymentModel_from_json w j =
     (if \<not> has_required_keys j [''id'', ''passengerId'', ''amount'', ''method'', ''paymentDate'', ''status'']
      then Inl InvalidArgument
      else
        bind_result (get_at get_string j ''id'') (\<lambda>ident.
        if substr ident 0 4 \<noteq> ''PAY-'' then Inl InvalidArgument
        else
          bind_result (get_at get_string j ''passengerId'') (\<lambda>pid.
          if users w pid = None then Inl InvalidArgument
          else
            bind_result (get_at get_double j ''amount'') (\<lambda>amt.
            if le_floating amt (Finite 0) then Inl InvalidArgument
            else
              bind_result (get_at get_string j ''method'') (\<lambda>strategyType.
              bind_result (at_key j ''details'') (\<lambda>details.
              bind_result (createPaymentStrategy strategyType details) (\<lambda>strategy.
              bind_result (get_at get_string j ''paymentDate'') (\<lambda>dateStr.
              bind_result (DateTime_of_string dateStr) (\<lambda>date.
              if \<not> isValid date then Inl InvalidArgument
              else
                bind_result (get_at get_string j ''status'') (\<lambda>statusStr.
                if statusStr = ''COMPLETED'' then
                  Inr \<lparr>paymentId = ident, paymentPassengerId = pid, amount = amt,
                        paymentStrategy = Some strategy, paymentDate = date,
                        paymentStatus = COMPLETED\<rparr>
                else if statusStr = ''REFUNDED'' then
                  Inr \<lparr>paymentId = ident, paymentPassengerId = pid, amount = amt,
                        paymentStrategy = Some strategy, paymentDate = date,
                        paymentStatus = REFUNDED\<rparr>
                else Inl InvalidArgument))))))))))"

text \<open>The exceptions \<open>catch (const std::exception&)\<close> catches.\<close>

fun is_std_exception :: "error \<Rightarrow> bool" where
  "is_std_exception InvalidArgument = True"
| "is_std_exception OutOfRange = True"
| "is_std_exception JsonError = True"
| "is_std_exception UndefinedBehaviour = False"
| "is_std_exception NoFreshId = False"

text \<open>
  \<open>PaymentService::createPayment\<close>. The payment is built with the default arguments of
  the constructor: status \<open>PENDING\<close> and the date \<open>DateTime::now()\<close>. The amount is a
  \<open>float\<close> here and a \<open>double\<close> in the constructor; that conversion changes no value.
\<close>

definition createPayment ::
  "World \<Rightarrow> string \<Rightarrow> float \<Rightarrow> string \<Rightarrow> json \<Rightarrow> (error + PaymentModel option) \<times> World" where
  "createPayment w pid amt method paymentDetails =
     (case createPaymentStrategy method paymentDetails of
        Inl e \<Rightarrow> if is_std_exception e then (Inr None, w) else (Inl e, w)
      | Inr strategy \<Rightarrow>
          (case PaymentModel_new w pid amt (Some strategy) PENDING (clock w) of
             (Inl e, w1) \<Rightarrow> if is_std_exception e then (Inr None, w1) else (Inl e, w1)
           | (Inr payment, w1) \<Rightarrow>
               (case addPayment w1 payment of
                  (False, w2) \<Rightarrow> (Inr None, w2)
                | (True, w2) \<Rightarrow> (Inr (payments w2 (paymentId payment)), w2))))"

section \<open>ReservationModel\<close>

text \<open>\<open>ReservationModel::ReservationModel(flightId, passengerId, seatNumber, status, paymentId)\<close>.\<close>

definition ReservationModel_new ::
  "World \<Rightarrow> string \<Rightarrow> string \<Rightarrow> string \<Rightarrow> ReservationStatus \<Rightarrow> string
     \<Rightarrow> (error + ReservationModel) \<times> World" where
  "ReservationModel_new w fid pid seat st payId =
     (if users w pid = None then (Inl InvalidArgument, w)
      else if flights w fid = None then (Inl InvalidArgument, w)
      else if payments w payId = None then (Inl InvalidArgument, w)
      else case fresh_id ''RES-'' (\<lambda>i. reservations w i \<noteq> None) (idDraws w) of
        None \<Rightarrow> (Inl NoFreshId, w\<lparr>idDraws := []\<rparr>)
      | Some (ident, rest) \<Rightarrow>
          (Inr \<lparr>reservationId = ident, reservationFlightId = fid, passengerId = pid,
                seatNumber = seat, status = st, reservationPaymentId = payId\<rparr>,
           w\<lparr>idDraws := rest\<rparr>))"

text \<open>\<open>ReservationModelBuilder::build\<close>, on the fields the builder was given.\<close>

definition build ::
  "World \<Rightarrow> string \<Rightarrow> string \<Rightarrow> string \<Rightarrow> ReservationStatus \<Rightarrow> string
     \<Rightarrow> (error + ReservationModel) \<times> World" where
  "build w fid pid seat st payId =
     (if fid = [] \<or> pid = [] \<or> seat = [] \<or> payId = [] then (Inl InvalidArgument, w)
      else ReservationModel_new w fid pid seat st payId)"

text \<open>
  \<open>ReservationModel::ReservationModel(const JSON&)\<close>, in two parts. First the statements
  up to the reading of the seat number, which change nothing: they give the identifier,
  the flight, the passenger, the status and the seat number.
\<close>

definition reservation_fields ::
  "World \<Rightarrow> json \<Rightarrow> error + string \<times> string \<times> string \<times> ReservationStatus \<times> string" where
  "reservation_fields w j =
     (if \<not> has_required_keys j [''id'', ''flightId'', ''passengerId'', ''seatNumber'', ''status'', ''paymentId'']
      then Inl InvalidArgument
      else
        bind_result (get_at get_string j ''id'') (\<lambda>rid.
        if substr rid 0 4 \<noteq> ''RES-'' then Inl InvalidArgument
        else
          bind_result (get_at get_string j ''flightId'') (\<lambda>fid.
          if flights w fid = None then Inl InvalidArgument
          else
            bind_result (get_at get_string j ''passengerId'') (\<lambda>pid.
            if users w pid = None then Inl InvalidArgument
            else
              bind_result (get_at get_string j ''status'') (\<lambda>statusStr.
              if statusStr \<noteq> ''CONFIRMED'' \<and> statusStr \<noteq> ''CANCELLED'' then Inl InvalidArgument
              else
                bind_result (get_at get_string j ''seatNumber'') (\<lambda>seat.
                Inr (rid, fid, pid,
                     (if statusStr = ''CONFIRMED'' then CONFIRMED else CANCELLED), seat)))))))"

text \<open>
  Then the second look-up of the flight, the write of its seat, and the checks of the
  payment, which come after that write: the world is returned in both outcomes.
\<close>



definition ReservationModel_from_json :: "World \<Rightarrow> json \<Rightarrow> (error + ReservationModel) \<times> World" where
  "ReservationModel_from_json w j =
     (case reservation_fields w j of
        Inl e \<Rightarrow> (Inl e, w)
      | Inr (rid, fid, pid, st, seat) \<Rightarrow>
          (case flights w fid of
             None \<Rightarrow> (Inl InvalidArgument, w)
           | Some flight \<Rightarrow>
               (case setSeatStatus (aircrafts w) flight seat (st = CONFIRMED) of
                  Inl e \<Rightarrow> (Inl e, w)
                | Inr flight' \<Rightarrow>
                    (let w1 = w\<lparr>flights := (flights w)(fid \<mapsto> flight')\<rparr> in
                     (case get_at get_string j ''paymentId'' of
                        Inl e \<Rightarrow> (Inl e, w1)
                      | Inr payId \<Rightarrow>
                          if payments w1 payId = None then (Inl InvalidArgument, w1)
                          else (Inr \<lparr>reservationId = rid, reservationFlightId = fid,
                                     passengerId = pid, seatNumber = seat, status = st,
                                     reservationPaymentId = payId\<rparr>, w1))))))"

text \<open>\<open>ReservationModel::to_json\<close>.\<close>

definition ReservationModel_to_json :: "ReservationModel \<Rightarrow> json" where
  "ReservationModel_to_json r =
     JObject [(''id'', JString (reservationId r)), (''flightId'', JString (reservationFlightId r)),
              (''passengerId'', JString (passengerId r)), (''seatNumber'', JString (seatNumber r)),
              (''status'', JString (if status r = CONFIRMED then ''CONFIRMED'' else ''CANCELLED'')),
              (''paymentId'', JString (reservationPaymentId r))]"

section \<open>ReservationService\<close>

text \<open>
  \<open>ReservationService::getSeatPrice\<close>. Every operation on the prices is an operation on
  \<open>float\<close>, rounded to \<open>float\<close>; a literal such as \<open>0.3f\<close> is the \<open>float\<close> nearest to
  the decimal number. \<open>std::stoi\<close> is not inside a \<open>try\<close>, so its exceptions leave the
  function.
\<close>

definition getSeatPrice :: "string \<Rightarrow> float \<Rightarrow> error + float" where
  "getSeatPrice seat loyaltyPoints =
     (case (if seat \<noteq> [] then
              (case stoi (substr seat 0 (length seat - 1)) of
                 Inl e \<Rightarrow> Inl e
               | Inr row \<Rightarrow>
                   let col = last seat;
                       basePrice = (if row \<ge> 1 \<and> row \<le> 5 then float_round 200
                                    else if row \<ge> 6 \<and> row \<le> 15 then float_round 150
                                    else float_round 100)
                   in Inr (if col = CHR ''A'' \<or> col = CHR ''F''
                           then float_add basePrice (float_round 20)
                           else if col = CHR ''C'' \<or> col = CHR ''D''
                           then float_add basePrice (float_round 10)
                           else basePrice))
            else Inr (float_round 100))
      of Inl e \<Rightarrow> Inl e
       | Inr basePrice \<Rightarrow>
           let maxDiscount = float_mul basePrice (float_round (3 / 10));
               discount = std_min loyaltyPoints maxDiscount
           in Inr (float_sub basePrice discount))"

text \<open>The loyalty points \<open>addReservation\<close> computes from the price, before it creates the
  payment. The \<open>int\<close> 100 is converted to \<open>float\<close> where it meets one.\<close>

definition adjusted_loyalty :: "float \<Rightarrow> float \<Rightarrow> float" where
  "adjusted_loyalty loyaltyPoints seatPrice =
     (if less_floating (float_round 0) loyaltyPoints then
        (let deduction = std_min loyaltyPoints (float_mul seatPrice (float_round (1 / 10)))
         in float_sub loyaltyPoints deduction)
      else
        (let lp = float_add loyaltyPoints (float_mul seatPrice (float_round (1 / 10)))
         in if less_floating (float_round 100) lp then float_round 100 else lp))"

text \<open>
  \<open>ReservationService::addReservation\<close>. The result is the optional reservation, or the
  exception that leaves the function, with the world as the call leaves it.
\<close>

definition addReservation ::
  "World \<Rightarrow> string \<Rightarrow> string \<Rightarrow> string \<Rightarrow> string \<Rightarrow> json
     \<Rightarrow> (error + ReservationModel option) \<times> World" where
  "addReservation w fid seat pid paymentMethod paymentDetails =
     (case users w pid of
        None \<Rightarrow> (Inr None, w)
      | Some user \<Rightarrow>
          if getRole user \<noteq> Passenger then (Inr None, w)
          else (case user of
              BookingManagerObject u \<Rightarrow> (Inr None, w)
            | AdminObject u \<Rightarrow> (Inr None, w)
            | PassengerObject u loyaltyPoints \<Rightarrow>
                (case flights w fid of
                   None \<Rightarrow> (Inr None, w)
                 | Some flight \<Rightarrow>
                     (case getSeatStatus (aircrafts w) flight seat of
                        Inl e \<Rightarrow> (Inl e, w)
                      | Inr True \<Rightarrow> (Inr None, w)
                      | Inr False \<Rightarrow>
                          (case getSeatPrice seat loyaltyPoints of
                             Inl e \<Rightarrow> (Inl e, w)
                           | Inr seatPrice \<Rightarrow>
                               let loyaltyPoints' = adjusted_loyalty loyaltyPoints seatPrice in
                               (case createPayment w pid seatPrice paymentMethod paymentDetails of
                                  (Inl e, w1) \<Rightarrow> (Inl e, w1)
                                | (Inr None, w1) \<Rightarrow> (Inr None, w1)
                                | (Inr (Some payment), w1) \<Rightarrow>
                                    (case build w1 fid pid seat CONFIRMED (paymentId payment) of
                                       (Inl e, w2) \<Rightarrow> (Inl e, w2)
                                     | (Inr reservation, w2) \<Rightarrow>
                                         (case Repository_addReservation w2 reservation of
                                            (False, w3) \<Rightarrow> (Inr None, w3)
                                          | (True, w3) \<Rightarrow>
                                              (case setSeatStatus (aircrafts w3) flight seat True of
                                                 Inl e \<Rightarrow> (Inl e, w3)
                                               | Inr flight' \<Rightarrow>
                                                   let w4 = w3\<lparr>flights := (flights w3)(fid \<mapsto> flight')\<rparr>;
                                                       w5 = w4\<lparr>users := (users w4)(pid \<mapsto>
                                                                PassengerObject u loyaltyPoints')\<rparr>
                                                   in (Inr (reservations w5 (reservationId reservation)),
                                                       w5))))))))))"

text \<open>\<open>ReservationService::deleteReservation\<close>.\<close>

definition deleteReservation :: "World \<Rightarrow> string \<Rightarrow> (error + bool) \<times> World" where
  "deleteReservation w rid =
     (case reservations w rid of
        None \<Rightarrow> (Inr False, w)
      | Some reservation \<Rightarrow>
          (case flights w (reservationFlightId reservation) of
             Some flight \<Rightarrow>
               (case setSeatStatus (aircrafts w) flight (seatNumber reservation) False of
                  Inl e \<Rightarrow> (Inl e, w)
                | Inr flight' \<Rightarrow>
                    let w1 = w\<lparr>flights := (flights w)(reservationFlightId reservation \<mapsto> flight')\<rparr>;
                        (deleted, w2) = Repository_deleteReservation w1 rid
                    in (Inr deleted, w2))
           | None \<Rightarrow>
               let (deleted, w2) = Repository_deleteReservation w rid in (Inr deleted, w2)))"

section \<open>The specification's wording\<close>

text \<open>
  A seat code as the specification describes it: one or more leading digits that denote a
  row in \<open>[1, rows]\<close>, followed by exactly one letter in \<open>['A', 'A' + seatsPerRow - 1]\<close>.
\<close>

definition well_formed_seat_code :: "int \<Rightarrow> int \<Rightarrow> string \<Rightarrow> bool" where
  "well_formed_seat_code rows seatsPerRow s =
     (s \<noteq> [] \<and> butlast s \<noteq> [] \<and> list_all isdigit (butlast s)
      \<and> 1 \<le> decimal (butlast s) \<and> decimal (butlast s) \<le> rows
      \<and> (of_char CHR ''A'' :: int) \<le> of_char (last s)
      \<and> (of_char (last s) :: int) \<le> of_char CHR ''A'' + seatsPerRow - 1)"

text \<open>
  The price of a seat as the specification states it, for an aircraft with
  \<open>seatsPerRow\<close> seats in a row: a base price by row band, plus a premium by column,
  where the window premium goes to column \<open>'A'\<close> and to the aircraft's last column,
  minus the loyalty discount. (The specification gives no base price for a row below 1;
  100 stands there.)
\<close>

definition row_base_price :: "int \<Rightarrow> rat" where
  "row_base_price row =
     (if 1 \<le> row \<and> row \<le> 5 then 200 else if 6 \<le> row \<and> row \<le> 15 then 150 else 100)"



text \<open>The column premium with the window columns fixed to \<open>'A'\<close> and \<open>'F'\<close>, whatever the
  aircraft.\<close>

definition fixed_column_premium :: "char \<Rightarrow> rat" where
  "fixed_column_premium col =
     (if col = CHR ''A'' \<or> col = CHR ''F'' then 20
      else if col = CHR ''C'' \<or> col = CHR ''D'' then 10
      else 0)"

text \<open>The invariant of an aircraft, in the operators of the source.\<close>

definition aircraft_invariant :: "AircraftModel \<Rightarrow> bool" where
  "aircraft_invariant a =
     (capacity a > 0 \<and> 1 \<le> numOfRowSeats a \<and> numOfRowSeats a \<le> 26
      \<and> capacity a smod numOfRowSeats a = 0
      \<and> numOfRows a = capacity a sdiv numOfRowSeats a)"

section \<open>A small world to evaluate the models on\<close>

definition example_aircraft :: AircraftModel where
  "example_aircraft =
     \<lparr>aircraftId = ''AC-10001'', model = ''A320'', capacity = 120, numOfRowSeats = 6, numOfRows = 20\<rparr>"

definition example_flight :: FlightModel where
  "example_flight =
     \<lparr>flightId = ''FL-20001'', origin = ''CAI'', destination = ''JFK'',
      departureTime = \<lparr>year = 2025, month = 6, day = 1, hour = 9, minute = 30\<rparr>,
      arrivalTime = \<lparr>year = 2025, month = 6, day = 1, hour = 21, minute = 5\<rparr>,
      flightAircraftId = ''AC-10001'', crewMemberIds = [],
      seatMap = replicate 20 (replicate 6 False)\<rparr>"

definition example_passenger :: User where
  "example_passenger =
     PassengerObject \<lparr>userId = ''PAS-30001'', username = ''mona'', password = ''secret'',
                      role = Passenger\<rparr> (Finite 0)"

definition example_world :: World where
  "example_world =
     \<lparr>users = [''PAS-30001'' \<mapsto> example_passenger],
      flights = [''FL-20001'' \<mapsto> example_flight],
      aircrafts = [''AC-10001'' \<mapsto> example_aircraft],
      crewMembers = Map.empty,
      payments = Map.empty,
      reservations = Map.empty,
      idDraws = [''40001'', ''50001''],
      clock = \<lparr>year = 2025, month = 5, day = 20, hour = 12, minute = 0\<rparr>\<rparr>"

text \<open>The payment and the reservation that booking seat \<open>3A\<close> of the example flight for the
  example passenger creates, and the world with that payment in it.\<close>

definition example_payment :: PaymentModel where
  "example_payment =
     \<lparr>paymentId = ''PAY-40001'', paymentPassengerId = ''PAS-30001'', amount = Finite 220,
      paymentStrategy = Some CashPayment,
      paymentDate = \<lparr>year = 2025, month = 5, day = 20, hour = 12, minute = 0\<rparr>,
      paymentStatus = PENDING\<rparr>"

definition example_reservation :: ReservationModel where
  "example_reservation =
     \<lparr>reservationId = ''RES-50001'', reservationFlightId = ''FL-20001'',
      passengerId = ''PAS-30001'', seatNumber = ''3A'', status = CONFIRMED,
      reservationPaymentId = ''PAY-40001''\<rparr>"

definition paid_world :: World where
  "paid_world = example_world\<lparr>payments := [''PAY-40001'' \<mapsto> example_payment]\<rparr>"

text \<open>A world in which the reservation is stored and its flight still exists, but the
  aircraft of the flight has been deleted from the aircraft repository.\<close>

definition orphaned_world :: World where
  "orphaned_world =
     example_world\<lparr>aircrafts := Map.empty,
                    payments := [''PAY-40001'' \<mapsto> example_payment],
                    reservations := [''RES-50001'' \<mapsto> example_reservation]\<rparr>"

text \<open>The world after the booking: the payment and the reservation are stored and seat
  \<open>3A\<close> is occupied. And the same world after the flight has been deleted.\<close>

definition booked_world :: World where
  "booked_world =
     example_world\<lparr>flights := [''FL-20001'' \<mapsto>
                       example_flight\<lparr>seatMap := (replicate 20 (replicate 6 False))[2 :=
                                        (replicate 6 False)[0 := True]]\<rparr>],
                    payments := [''PAY-40001'' \<mapsto> example_payment],
                    reservations := [''RES-50001'' \<mapsto> example_reservation]\<rparr>"

definition flightless_world :: World where
  "flightless_world = booked_world\<lparr>flights := Map.empty\<rparr>"

section \<open>Basic facts\<close>

lemma bind_result_Inr:
  "bind_result r f = Inr y \<longleftrightarrow> (\<exists>v. r = Inr v \<and> f v = Inr y)"
  by (cases r) (auto simp: bind_result_def)

lemma bind_result_simps [simp]:
  "bind_result (Inl e) f = Inl e"
  "bind_result (Inr v) f = f v"
  by (simp_all add: bind_result_def)

lemma bind_result_Inl:
  "bind_result r f = Inl e \<longleftrightarrow> r = Inl e \<or> (\<exists>v. r = Inr v \<and> f v = Inl e)"
  by (cases r) (auto simp: bind_result_def)

lemmas example_defs =
  example_world_def example_flight_def example_aircraft_def example_passenger_def
  example_payment_def example_reservation_def paid_world_def

lemmas seat_code_defs =
  getSeatIndices_def stoi_def substr_def isdigit_def isspace_def decimal_def digit_value_def
  char_to_int_def INT_MAX_def INT_MIN_def


section \<open>Rounding\<close>

text \<open>Rules that evaluate a rounding on a numeral.\<close>

lemma spacing_numeral [simp]:
  "spacing p (numeral v) =
     (if (numeral v :: nat) < 2 ^ p then 1 else 2 * spacing p (numeral v div 2))"
  by (rule spacing.simps)

lemma spacing_zero [simp]: "spacing p 0 = 1"
  by (simp add: spacing.simps[of p 0])

lemma spacing_Suc_0 [simp]: "spacing p (Suc 0) = (if Suc 0 < 2 ^ p then 1 else 2)"
  by (simp add: spacing.simps[of p "Suc 0"])

lemma floor_rat_numeral [simp]: "\<lfloor>(numeral a :: rat) / numeral b\<rfloor> = numeral a div numeral b"
  using floor_divide_of_int_eq[of "numeral a" "numeral b", where ?'a = rat] by simp

lemmas float_round_defs = float_round_def double_round_def round_to_format_def round_magnitude_def
  quantize_def round_half_even_def Let_def

text \<open>
  The error of a rounding. Above the subnormal range the spacing is at most the magnitude
  divided by \<open>2 ^ (p - 1)\<close>, and the rounded value is within half a spacing of the exact
  one; so a rounding to \<open>float\<close> moves a number by at most its \<open>2 ^ 24\<close>th part, or by half
  the smallest subnormal number.
\<close>

lemma spacing_pos: "0 < spacing p m"
proof (induction p m rule: spacing.induct)
  case (1 p m)
  then show ?case by (subst spacing.simps) simp
qed

lemma spacing_bound: "spacing p m = 1 \<or> 2 ^ p * spacing p m \<le> 2 * m"
proof (induction p m rule: spacing.induct)
  case (1 p m)
  show ?case
  proof (cases "m < 2 ^ p")
    case True
    then show ?thesis by (subst spacing.simps) simp
  next
    case False
    then have eq: "spacing p m = 2 * spacing p (m div 2)"
      by (subst spacing.simps) simp
    from 1[OF False] have "spacing p (m div 2) = 1 \<or> 2 ^ p * spacing p (m div 2) \<le> 2 * (m div 2)" .
    then have "2 ^ p * spacing p (m div 2) \<le> m"
    proof
      assume "spacing p (m div 2) = 1"
      then show ?thesis using False by simp
    next
      assume "2 ^ p * spacing p (m div 2) \<le> 2 * (m div 2)"
      moreover have "2 * (m div 2) \<le> m" by simp
      ultimately show ?thesis by linarith
    qed
    then show ?thesis unfolding eq by simp
  qed
qed

lemma round_half_even_error: "\<bar>of_int (round_half_even q) - q\<bar> \<le> 1 / 2"
proof -
  have "of_int \<lfloor>q\<rfloor> \<le> q" "q < of_int \<lfloor>q\<rfloor> + 1" by linarith+
  then show ?thesis
    unfolding round_half_even_def Let_def by (auto simp: abs_le_iff)
qed

lemma quantize_error:
  assumes "0 < u"
  shows "\<bar>quantize u x - x\<bar> \<le> of_nat u / 2"
proof -
  let ?n = "of_int (round_half_even (x / of_nat u)) :: rat"
  have u: "(0::rat) < of_nat u" using assms by simp
  have "\<bar>?n - x / of_nat u\<bar> * of_nat u \<le> 1 / 2 * of_nat u"
    using round_half_even_error[of "x / of_nat u"] u by (intro mult_right_mono) simp_all
  moreover have "\<bar>?n - x / of_nat u\<bar> * of_nat u = \<bar>?n * of_nat u - x\<bar>"
  proof -
    have "\<bar>?n - x / of_nat u\<bar> * of_nat u = \<bar>(?n - x / of_nat u) * of_nat u\<bar>"
      using u by (simp add: abs_mult)
    also have "(?n - x / of_nat u) * of_nat u = ?n * of_nat u - x"
      using u by (simp add: field_simps)
    finally show ?thesis .
  qed
  ultimately show ?thesis by (simp add: quantize_def)
qed

lemma round_magnitude_error:
  assumes "0 \<le> x"
  shows "\<bar>round_magnitude p x - x\<bar> \<le> 1 / 2 + x / 2 ^ p"
proof -
  let ?m = "nat \<lfloor>x\<rfloor>"
  let ?u = "spacing p ?m"
  have err: "\<bar>round_magnitude p x - x\<bar> \<le> of_nat ?u / 2"
    unfolding round_magnitude_def by (rule quantize_error[OF spacing_pos])
  have m: "(of_nat ?m :: rat) \<le> x"
    using assms by (simp add: of_nat_nat)
  from spacing_bound[of p ?m] show ?thesis
  proof
    assume "?u = 1"
    moreover have "0 \<le> x / 2 ^ p" using assms by simp
    ultimately show ?thesis using err by simp
  next
    assume "2 ^ p * ?u \<le> 2 * ?m"
    then have "(of_nat (2 ^ p * ?u) :: rat) \<le> of_nat (2 * ?m)"
      by (simp only: of_nat_le_iff)
    then have "2 ^ p * (of_nat ?u :: rat) \<le> 2 * x" using m by simp
    then have "(of_nat ?u :: rat) / 2 \<le> x / 2 ^ p"
      by (simp add: field_simps)
    then show ?thesis using err by linarith
  qed
qed

lemma round_to_format_error:
  assumes "\<bar>r\<bar> < (2 - 1 / 2 ^ p) * 2 ^ emax"
  shows "\<exists>v. round_to_format p emax r = Finite v
           \<and> \<bar>v - r\<bar> \<le> \<bar>r\<bar> / 2 ^ p + 1 / (2 * 2 ^ (emax + p - 2))"
proof -
  let ?S = "2 ^ (emax + p - 2) :: rat"
  let ?x = "\<bar>r\<bar> * ?S"
  let ?y = "round_magnitude p ?x"
  let ?v = "sgn r * (?y / ?S)"
  have S: "0 < ?S" by simp
  have rf: "round_to_format p emax r = Finite ?v"
    using assms by (simp add: round_to_format_def)
  have x: "0 \<le> ?x" by simp
  have "\<bar>?y - ?x\<bar> \<le> 1 / 2 + ?x / 2 ^ p" by (rule round_magnitude_error[OF x])
  then have "\<bar>?y - ?x\<bar> / ?S \<le> (1 / 2 + ?x / 2 ^ p) / ?S"
    using S by (simp add: divide_right_mono)
  also have "(1 / 2 + ?x / 2 ^ p) / ?S = \<bar>r\<bar> / 2 ^ p + 1 / (2 * ?S)"
    by (simp add: field_simps)
  finally have e: "\<bar>?y - ?x\<bar> / ?S \<le> \<bar>r\<bar> / 2 ^ p + 1 / (2 * ?S)" .
  have "?v - r = sgn r * ((?y - ?x) / ?S)"
  proof -
    have "r = sgn r * \<bar>r\<bar>" by (simp add: sgn_mult_abs)
    then have "r = sgn r * (?x / ?S)" by simp
    then have "?v - r = sgn r * (?y / ?S) - sgn r * (?x / ?S)" by simp
    then show ?thesis by (simp add: algebra_simps diff_divide_distrib)
  qed
  then have "\<bar>?v - r\<bar> = \<bar>sgn r\<bar> * (\<bar>?y - ?x\<bar> / ?S)"
    by (simp add: abs_mult)
  also have "\<dots> \<le> 1 * (\<bar>?y - ?x\<bar> / ?S)"
    by (intro mult_right_mono) (simp_all add: abs_sgn_eq)
  finally have "\<bar>?v - r\<bar> \<le> \<bar>r\<bar> / 2 ^ p + 1 / (2 * ?S)" using e by simp
  with rf show ?thesis by blast
qed

lemma float_round_error:
  assumes "\<bar>r\<bar> \<le> 1000"
  shows "\<exists>v. float_round r = Finite v \<and> \<bar>v - r\<bar> \<le> \<bar>r\<bar> / 16777216 + 1 / 10 ^ 40"
proof -
  have "\<bar>r\<bar> < (2 - 1 / 2 ^ 24) * 2 ^ 127" using assms by simp
  from round_to_format_error[OF this] obtain v where
    v: "float_round r = Finite v" "\<bar>v - r\<bar> \<le> \<bar>r\<bar> / 2 ^ 24 + 1 / (2 * 2 ^ (127 + 24 - 2))"
    unfolding float_round_def by blast
  have "(1::rat) / (2 * 2 ^ (127 + 24 - 2)) \<le> 1 / 10 ^ 40" by simp
  with v show ?thesis by auto
qed

text \<open>The literals of the price computation, and the sums of a base price and a premium,
  are values of \<open>float\<close>.\<close>

lemma float_literals:
  "float_round 0 = Finite 0"
  "float_round 10 = Finite 10"
  "float_round 20 = Finite 20"
  "float_round 100 = Finite 100"
  "float_round 150 = Finite 150"
  "float_round 200 = Finite 200"
  "float_round (3 / 10) = Finite (5033165 / 16777216)"
  "float_round (1 / 10) = Finite (13421773 / 134217728)"
  by (simp_all add: float_round_defs)

lemma float_totals:
  "float_round 110 = Finite 110"
  "float_round 120 = Finite 120"
  "float_round 160 = Finite 160"
  "float_round 170 = Finite 170"
  "float_round 210 = Finite 210"
  "float_round 220 = Finite 220"
  by (simp_all add: float_round_defs)

lemma std_min_Finite [simp]: "std_min (Finite x) (Finite y) = Finite (min x y)"
  by (simp add: std_min_def min_def)

lemma float_sub_Finite [simp]: "float_sub (Finite x) (Finite y) = float_round (x - y)"
  by (simp add: float_sub_def)

section \<open>Seat codes\<close>

lemma find_first_not_of_Some:
  "find_first_not_of s chars = Some i \<Longrightarrow>
     i < length s \<and> s ! i \<notin> set chars \<and> take i s = takeWhile (\<lambda>c. c \<in> set chars) s"
  by (induction s arbitrary: i) (auto split: if_splits)

lemma digit_value_nonneg: "isdigit c \<Longrightarrow> 0 \<le> digit_value c"
  by (auto simp: isdigit_def digit_value_def)

lemma foldl_decimal_nonneg:
  "list_all isdigit ds \<Longrightarrow> 0 \<le> acc \<Longrightarrow> 0 \<le> foldl (\<lambda>acc c. 10 * acc + digit_value c) acc ds"
  by (induction ds arbitrary: acc) (auto simp: digit_value_nonneg)

lemma decimal_nonneg: "list_all isdigit ds \<Longrightarrow> 0 \<le> decimal ds"
  by (simp add: decimal_def foldl_decimal_nonneg)

lemma isdigit_not_isspace: "isdigit c \<Longrightarrow> \<not> isspace c"
  by (auto simp: isdigit_def isspace_def)

lemma isdigit_not_sign: "isdigit c \<Longrightarrow> c \<noteq> CHR ''-'' \<and> c \<noteq> CHR ''+''"
  by (auto simp: isdigit_def)

lemma stoi_digits:
  assumes "ds \<noteq> []" and "list_all isdigit ds"
  shows "stoi ds = (if decimal ds \<le> INT_MAX then Inr (decimal ds) else Inl OutOfRange)"
proof -
  obtain d rest where ds: "ds = d # rest" using assms(1) by (cases ds) auto
  have d: "isdigit d" using assms(2) ds by simp
  have drop: "dropWhile isspace ds = ds"
    using d ds by (simp add: isdigit_not_isspace)
  have tw: "takeWhile isdigit ds = ds"
    using assms(2) by (simp add: list_all_iff)
  have nn: "0 \<le> decimal ds" using assms(2) by (rule decimal_nonneg)
  show ?thesis
    using drop tw nn isdigit_not_sign[OF d] ds
    by (auto simp: stoi_def Let_def INT_MIN_def INT_MAX_def)
qed


lemma char_to_int_A: "char_to_int CHR ''A'' = 65"
  by (simp add: char_to_int_def)

lemma of_char_bounds: "(0::int) \<le> of_char c \<and> (of_char c :: int) < 256"
proof -
  have "(of_char c :: int) = of_char c mod 256" by simp
  moreover have "0 \<le> (of_char c :: int) mod 256 \<and> (of_char c :: int) mod 256 < 256"
    by (simp del: of_char_mod_256)
  ultimately show ?thesis by simp
qed

lemma letter_range_signed:
  assumes "n \<le> 26"
  shows "(char_to_int c < 65 \<or> char_to_int c > n + 65 - 1) \<longleftrightarrow>
         \<not> ((65::int) \<le> of_char c \<and> (of_char c :: int) \<le> 65 + n - 1)"
  using assms of_char_bounds[of c] by (auto simp: char_to_int_def Let_def)

lemma isdigit_code: "isdigit c \<Longrightarrow> (of_char c :: int) < 65"
  by (auto simp: isdigit_def)

lemma isdigit_fold: "(\<lambda>c. c \<in> set ''0123456789'') = isdigit"
  by (rule ext) (simp only: isdigit_def)

lemma find_first_not_of_char:
  "find_first_not_of s chars =
     (if list_all (\<lambda>c. c \<in> set chars) s then None
      else Some (length (takeWhile (\<lambda>c. c \<in> set chars) s)))"
  by (induction s) auto

lemmas find_digits = find_first_not_of_char[of _ "''0123456789''", unfolded isdigit_fold]

lemma list_all_takeWhile: "list_all P (takeWhile P xs)"
  by (induction xs) auto

lemma takeWhile_digits_butlast:
  assumes "find_first_not_of s ''0123456789'' = Some i" and "length s - i = 1"
  shows "take i s = butlast s \<and> s ! i = last s \<and> list_all isdigit (butlast s)"
proof -
  from find_first_not_of_Some[OF assms(1)]
  have i: "i < length s" and tk: "take i s = takeWhile isdigit s"
    unfolding isdigit_fold by blast+
  have il: "i = length s - 1" using assms(2) i by simp
  have ne: "s \<noteq> []" using i by auto
  have b: "take i s = butlast s" using il by (simp add: butlast_conv_take)
  have l: "s ! i = last s" using il ne by (simp add: last_conv_nth)
  have "list_all isdigit (takeWhile isdigit s)" by (rule list_all_takeWhile)
  then show ?thesis using b l tk by simp
qed

lemma wf_find:
  assumes "well_formed_seat_code rows n s"
  shows "find_first_not_of s ''0123456789'' = Some (length s - 1) \<and> 2 \<le> length s"
proof -
  from assms have ne: "s \<noteq> []" and bne: "butlast s \<noteq> []" and dg: "list_all isdigit (butlast s)"
    and lt: "(65::int) \<le> of_char (last s)"
    by (auto simp: well_formed_seat_code_def)
  have len: "2 \<le> length s" using bne ne by (cases s rule: rev_cases) (auto simp: Suc_le_eq)
  have nd: "\<not> isdigit (last s)" using lt isdigit_code[of "last s"] by auto
  have s: "s = butlast s @ [last s]" using ne by simp
  have tw: "takeWhile isdigit s = butlast s"
  proof -
    have "takeWhile isdigit (butlast s @ [last s]) = butlast s"
      using dg nd by (simp add: list_all_iff)
    then show ?thesis using s by simp
  qed
  have "\<not> list_all isdigit s"
    using nd ne last_in_set by (auto simp: list_all_iff)
  then have "find_first_not_of s ''0123456789'' = Some (length (takeWhile isdigit s))"
    by (simp add: find_digits)
  with tw
  show ?thesis using len by simp
qed

text \<open>
  Claim C1. For a flight whose aircraft is in the repository (with at most 26 seats in a
  row, and a number of rows that is an \<open>int\<close>), \<open>getSeatIndices\<close> returns
  \<open>(row - 1, letter - 'A')\<close> exactly on the strings made of one or more digits that
  denote a row in \<open>[1, numRows]\<close> followed by one letter in
  \<open>['A', 'A' + seatsPerRow - 1]\<close>, it returns the sentinel \<open>(-1, -1)\<close> on every
  other string, and \<open>isValidSeat\<close> is true exactly on those strings.
\<close>

theorem seat_decoding_exact:
  assumes inrepo: "acs (flightAircraftId f) = Some a"
    and seats: "numOfRowSeats a \<le> MAX_SEATS_PER_ROW"
    and rows: "numOfRows a \<le> INT_MAX"
  shows "getSeatIndices acs f s =
           (if well_formed_seat_code (numOfRows a) (numOfRowSeats a) s
            then (decimal (butlast s) - 1, of_char (last s) - of_char CHR ''A'')
            else (-1, -1))
         \<and> (isValidSeat acs f s \<longleftrightarrow> well_formed_seat_code (numOfRows a) (numOfRowSeats a) s)"
proof -
  let ?wf = "well_formed_seat_code (numOfRows a) (numOfRowSeats a) s"
  let ?ok = "(decimal (butlast s) - 1, (of_char (last s) :: int) - of_char CHR ''A'')"
  have n26: "numOfRowSeats a \<le> 26" using seats by (simp add: MAX_SEATS_PER_ROW_def)
  have main: "getSeatIndices acs f s = (if ?wf then ?ok else (-1, -1))"
  proof (cases ?wf)
    case True
    from wf_find[OF True] have ff: "find_first_not_of s ''0123456789'' = Some (length s - 1)"
      and len: "2 \<le> length s" by auto
    from True have ne: "s \<noteq> []" and bne: "butlast s \<noteq> []" and dg: "list_all isdigit (butlast s)"
      and r1: "1 \<le> decimal (butlast s)" and r2: "decimal (butlast s) \<le> numOfRows a"
      and c1: "(65::int) \<le> of_char (last s)" and c2: "(of_char (last s) :: int) \<le> 65 + numOfRowSeats a - 1"
      by (auto simp: well_formed_seat_code_def)
    have idx: "s ! (length s - 1) = last s" using ne by (simp add: last_conv_nth)
    have sub: "substr s 0 (length s - 1) = butlast s" by (simp add: substr_def butlast_conv_take)
    have rng: "\<not> (char_to_int (last s) < 65 \<or> char_to_int (last s) > numOfRowSeats a + 65 - 1)"
      using letter_range_signed[OF n26, of "last s"] c1 c2 by simp
    have ci: "char_to_int (last s) = of_char (last s)"
      using c2 n26 by (auto simp: char_to_int_def Let_def)
    have st: "stoi (butlast s) = Inr (decimal (butlast s))"
      using stoi_digits[OF bne dg] r2 rows by simp
    show ?thesis
      using True inrepo ne ff len idx sub rng st r1 r2 ci
      by (simp add: getSeatIndices_def char_to_int_A Let_def)
  next
    case False
    show ?thesis
    proof (cases "s = []")
      case True
      then show ?thesis using False inrepo by (simp add: getSeatIndices_def)
    next
      case ne: False
      show ?thesis
      proof (cases "find_first_not_of s ''0123456789''")
        case None
        then show ?thesis using False inrepo ne by (simp add: getSeatIndices_def)
      next
        case (Some i)
        show ?thesis
        proof (cases "i = 0 \<or> length s - i \<noteq> 1")
          case True
          then show ?thesis using False inrepo ne Some by (auto simp: getSeatIndices_def)
        next
          case ok: False
          then have i0: "i \<noteq> 0" and il: "length s - i = 1" by auto
          from takeWhile_digits_butlast[OF Some il]
          have tk: "take i s = butlast s" and li: "s ! i = last s" and dg: "list_all isdigit (butlast s)"
            by auto
          have sub: "substr s 0 i = butlast s" using tk by (simp add: substr_def)
          have bne: "butlast s \<noteq> []" using tk i0 ne il by (metis take_eq_Nil)
          show ?thesis
          proof (cases "char_to_int (last s) < 65 \<or> char_to_int (last s) > numOfRowSeats a + 65 - 1")
            case True
            then show ?thesis
              using False inrepo ne Some ok li by (simp add: getSeatIndices_def char_to_int_A Let_def)
          next
            case inr: False
            then have c: "(65::int) \<le> of_char (last s) \<and> (of_char (last s) :: int) \<le> 65 + numOfRowSeats a - 1"
              using letter_range_signed[OF n26, of "last s"] by simp
            have nwf: "\<not> (1 \<le> decimal (butlast s) \<and> decimal (butlast s) \<le> numOfRows a)"
              using False ne bne dg c by (simp add: well_formed_seat_code_def)
            have st: "stoi (butlast s) = (if decimal (butlast s) \<le> INT_MAX then Inr (decimal (butlast s)) else Inl OutOfRange)"
              by (rule stoi_digits[OF bne dg])
            show ?thesis
              using False inrepo ne Some ok li inr sub st nwf
              by (auto simp: getSeatIndices_def char_to_int_A Let_def)
          qed
        qed
      qed
    qed
  qed
  have valid: "isValidSeat acs f s \<longleftrightarrow> ?wf"
  proof (cases ?wf)
    case True
    then have "1 \<le> decimal (butlast s)" and "(65::int) \<le> of_char (last s)"
      by (auto simp: well_formed_seat_code_def)
    then show ?thesis using True main by (simp add: isValidSeat_def)
  next
    case False
    then show ?thesis using main by (simp add: isValidSeat_def)
  qed
  show ?thesis using main valid by simp
qed

theorem seat_decoding_exact_witness:
  "aircrafts example_world (flightAircraftId example_flight) = Some example_aircraft
   \<and> numOfRowSeats example_aircraft \<le> MAX_SEATS_PER_ROW
   \<and> numOfRows example_aircraft \<le> INT_MAX
   \<and> getSeatIndices (aircrafts example_world) example_flight ''12A'' = (11, 0)
   \<and> isValidSeat (aircrafts example_world) example_flight ''12A''"
proof -
  have h1: "aircrafts example_world (flightAircraftId example_flight) = Some example_aircraft"
    by (simp add: example_world_def example_flight_def)
  have h2: "numOfRowSeats example_aircraft \<le> MAX_SEATS_PER_ROW"
    by (simp add: example_aircraft_def MAX_SEATS_PER_ROW_def)
  have h3: "numOfRows example_aircraft \<le> INT_MAX"
    by (simp add: example_aircraft_def INT_MAX_def)
  have wf: "well_formed_seat_code (numOfRows example_aircraft) (numOfRowSeats example_aircraft) ''12A''"
    by (simp add: well_formed_seat_code_def example_aircraft_def isdigit_def decimal_def digit_value_def)
  have d: "decimal (butlast ''12A'') = 12"
    by (simp add: decimal_def digit_value_def)
  show ?thesis
    using seat_decoding_exact [where acs = "aircrafts example_world" and f = example_flight
        and a = example_aircraft and s = "''12A''", OF h1 h2 h3] h1 h2 h3 wf d
    by simp
qed


lemma seat_examples:
  "\<not> isValidSeat (aircrafts example_world) example_flight ''0A''"
  "\<not> isValidSeat (aircrafts example_world) example_flight ''1AA''"
  "\<not> isValidSeat (aircrafts example_world) example_flight []"
  "\<not> isValidSeat (aircrafts example_world) example_flight ''1G''"
  "\<not> isValidSeat (aircrafts example_world) example_flight ''21A''"
  "isValidSeat (aircrafts example_world) example_flight ''20F''"
  by (simp_all add: isValidSeat_def getSeatIndices_def example_world_def example_flight_def
      example_aircraft_def stoi_def substr_def isdigit_def isspace_def decimal_def digit_value_def
      char_to_int_def INT_MAX_def INT_MIN_def Let_def)

text \<open>
  Claim C9. For a flight whose aircraft identifier has no aircraft in the repository,
  every seat string decodes to the sentinel: \<open>isValidSeat\<close> is false, and
  \<open>getSeatStatus\<close> and \<open>setSeatStatus\<close> throw \<open>std::invalid_argument\<close>.
\<close>

theorem missing_aircraft_invalidates_seats:
  assumes "acs (flightAircraftId f) = None"
  shows "getSeatIndices acs f s = (-1, -1)
         \<and> \<not> isValidSeat acs f s
         \<and> getSeatStatus acs f s = Inl InvalidArgument
         \<and> setSeatStatus acs f s b = Inl InvalidArgument"
  using assms
  by (simp add: getSeatIndices_def isValidSeat_def getSeatStatus_def setSeatStatus_def)

text \<open>The seat \<open>12A\<close> of the example flight is valid while its aircraft is in the
  repository, and invalid once the aircraft has been deleted.\<close>

theorem missing_aircraft_invalidates_seats_witness:
  "((aircrafts example_world)(''AC-10001'' := None)) (flightAircraftId example_flight) = None
   \<and> getSeatIndices (aircrafts example_world) example_flight ''12A'' = (11, 0)
   \<and> getSeatIndices ((aircrafts example_world)(''AC-10001'' := None)) example_flight ''12A'' = (-1, -1)
   \<and> \<not> isValidSeat ((aircrafts example_world)(''AC-10001'' := None)) example_flight ''12A''
   \<and> getSeatStatus ((aircrafts example_world)(''AC-10001'' := None)) example_flight ''12A''
       = Inl InvalidArgument
   \<and> setSeatStatus ((aircrafts example_world)(''AC-10001'' := None)) example_flight ''12A'' True
       = Inl InvalidArgument"
proof -
  have h: "((aircrafts example_world)(''AC-10001'' := None)) (flightAircraftId example_flight) = None"
    by (simp add: example_flight_def)
  have before: "getSeatIndices (aircrafts example_world) example_flight ''12A'' = (11, 0)"
    by (simp add: getSeatIndices_def example_world_def example_flight_def
        example_aircraft_def stoi_def substr_def isdigit_def isspace_def decimal_def digit_value_def
        char_to_int_def INT_MAX_def INT_MIN_def Let_def)
  show ?thesis
    using missing_aircraft_invalidates_seats
        [where acs = "(aircrafts example_world)(''AC-10001'' := None)" and f = example_flight
           and s = "''12A''" and b = True, OF h] h before
    by simp
qed

section \<open>The invariant of AircraftModel\<close>

lemma smod_pos_eq_mod: "0 < a \<Longrightarrow> 0 < b \<Longrightarrow> (a::int) smod b = a mod b"
  by (simp add: signed_modulo_int_def)

lemma sdiv_pos_eq_div: "0 < a \<Longrightarrow> 0 < b \<Longrightarrow> (a::int) sdiv b = a div b"
  by (simp add: signed_divide_int_def)

text \<open>With positive operands the operators of the source are those of HOL.\<close>

lemma aircraft_invariant_mod_div:
  "aircraft_invariant a \<longleftrightarrow>
     capacity a > 0 \<and> 1 \<le> numOfRowSeats a \<and> numOfRowSeats a \<le> 26
     \<and> capacity a mod numOfRowSeats a = 0
     \<and> numOfRows a = capacity a div numOfRowSeats a"
  by (auto simp: aircraft_invariant_def smod_pos_eq_mod sdiv_pos_eq_div)

lemma aircraft_checks_None:
  "aircraft_checks mdl cap seats = None \<Longrightarrow>
     mdl \<noteq> [] \<and> cap > 0 \<and> 1 \<le> seats \<and> seats \<le> 26 \<and> cap smod seats = 0"
  by (auto simp: aircraft_checks_def MAX_SEATS_PER_ROW_def split: if_splits)

lemma AircraftModel_new_invariant:
  assumes "AircraftModel_new repo draws mdl cap seats = (Inr a, rest)"
  shows "aircraft_invariant a"
proof (cases "aircraft_checks mdl cap seats")
  case None
  from aircraft_checks_None[OF None] assms None show ?thesis
    by (auto simp: AircraftModel_new_def aircraft_invariant_def split: option.splits)
next
  case (Some e)
  with assms show ?thesis by (simp add: AircraftModel_new_def)
qed

lemma AircraftModel_from_json_invariant:
  assumes "AircraftModel_from_json j = Inr a"
  shows "aircraft_invariant a"
proof -
  from assms obtain ident mdl cap seats where
    chk: "aircraft_checks mdl cap seats = None" and
    a: "a = \<lparr>aircraftId = ident, model = mdl, capacity = cap, numOfRowSeats = seats,
              numOfRows = cap sdiv seats\<rparr>"
    by (auto simp: AircraftModel_from_json_def bind_result_Inr split: if_splits option.splits)
  from aircraft_checks_None[OF chk] a show ?thesis
    by (simp add: aircraft_invariant_def)
qed

lemma setCapacity_invariant:
  assumes "aircraft_invariant a" and "setCapacity a c = Inr a'"
  shows "aircraft_invariant a'"
  using assms by (auto simp: setCapacity_def aircraft_invariant_def split: if_splits)

lemma setNumOfRowSeats_invariant:
  assumes "aircraft_invariant a" and "setNumOfRowSeats a n = Inr a'"
  shows "aircraft_invariant a'"
  using assms
  by (auto simp: setNumOfRowSeats_def aircraft_invariant_def MAX_SEATS_PER_ROW_def split: if_splits)

lemma setModel_invariant: "aircraft_invariant a \<Longrightarrow> aircraft_invariant (setModel a m)"
  by (simp add: setModel_def aircraft_invariant_def)

lemma aircraft_checks_error:
  "aircraft_checks mdl cap seats = Some e \<Longrightarrow> e = InvalidArgument"
  by (auto simp: aircraft_checks_def split: if_splits)

lemma not_divisible_rejected:
  assumes "cap smod seats \<noteq> 0"
  shows "aircraft_checks mdl cap seats = Some InvalidArgument"
  using assms by (simp add: aircraft_checks_def)

lemma capacity_100_seats_7_rejected:
  "aircraft_checks mdl 100 7 = Some InvalidArgument"
  by (simp add: aircraft_checks_def MAX_SEATS_PER_ROW_def signed_modulo_int_def)

text \<open>
  Claim C7. An \<open>AircraftModel\<close> that a constructor returns (from arguments or from JSON)
  satisfies \<open>capacity > 0\<close>, \<open>1 \<le> numOfRowSeats \<le> 26\<close>,
  \<open>capacity % numOfRowSeats = 0\<close> and \<open>numOfRows = capacity / numOfRowSeats\<close>; every
  setter that returns keeps the invariant; and the construction with a capacity that is
  not a multiple of the seats in a row, such as capacity 100 and 7 seats in a row, throws
  \<open>std::invalid_argument\<close>, whatever the model name, the repository and the draws.
\<close>

theorem aircraft_invariant_holds:
  "(AircraftModel_new repo draws mdl cap seats = (Inr na, rest) \<longrightarrow> aircraft_invariant na)
   \<and> (AircraftModel_from_json j = Inr ja \<longrightarrow> aircraft_invariant ja)
   \<and> (aircraft_invariant ca \<and> setCapacity ca c = Inr cb' \<longrightarrow> aircraft_invariant cb')
   \<and> (aircraft_invariant sa \<and> setNumOfRowSeats sa n = Inr sb' \<longrightarrow> aircraft_invariant sb')
   \<and> (aircraft_invariant ma \<longrightarrow> aircraft_invariant (setModel ma m))
   \<and> (cap smod seats \<noteq> 0 \<longrightarrow>
        AircraftModel_new repo draws mdl cap seats = (Inl InvalidArgument, draws))
   \<and> AircraftModel_new repo draws mdl 100 7 = (Inl InvalidArgument, draws)
   \<and> AircraftModel_from_json
        (JObject [(''id'', JString (''AC-'' @ ident)), (''model'', JString mdl),
                  (''capacity'', JInt 100), (''numOfRowSeats'', JInt 7)])
      = Inl InvalidArgument"
proof -
  have new_rejects: "AircraftModel_new repo draws mdl 100 7 = (Inl InvalidArgument, draws)"
    by (simp add: AircraftModel_new_def capacity_100_seats_7_rejected)
  have json_rejects: "AircraftModel_from_json
        (JObject [(''id'', JString (''AC-'' @ ident)), (''model'', JString mdl),
                  (''capacity'', JInt 100), (''numOfRowSeats'', JInt 7)])
      = Inl InvalidArgument"
    by (simp add: AircraftModel_from_json_def has_required_keys_def get_at_def substr_def
        to_int32_def capacity_100_seats_7_rejected)
  have indivisible: "cap smod seats \<noteq> 0 \<longrightarrow>
        AircraftModel_new repo draws mdl cap seats = (Inl InvalidArgument, draws)"
    by (simp add: AircraftModel_new_def not_divisible_rejected)
  have c1: "AircraftModel_new repo draws mdl cap seats = (Inr na, rest) \<longrightarrow> aircraft_invariant na"
    using AircraftModel_new_invariant by blast
  have c2: "AircraftModel_from_json j = Inr ja \<longrightarrow> aircraft_invariant ja"
    using AircraftModel_from_json_invariant by blast
  have c3: "aircraft_invariant ca \<and> setCapacity ca c = Inr cb' \<longrightarrow> aircraft_invariant cb'"
    using setCapacity_invariant by blast
  have c4: "aircraft_invariant sa \<and> setNumOfRowSeats sa n = Inr sb' \<longrightarrow> aircraft_invariant sb'"
    using setNumOfRowSeats_invariant by blast
  have c5: "aircraft_invariant ma \<longrightarrow> aircraft_invariant (setModel ma m)"
    using setModel_invariant by blast
  from c1 c2 c3 c4 c5 indivisible new_rejects json_rejects
  show ?thesis by (intro conjI)
qed

theorem aircraft_invariant_holds_witness:
  "AircraftModel_new Map.empty [''10001''] ''A320'' 120 6 = (Inr example_aircraft, [])
   \<and> AircraftModel_from_json (AircraftModel_to_json example_aircraft) = Inr example_aircraft
   \<and> setCapacity example_aircraft 180 = Inr (example_aircraft\<lparr>capacity := 180, numOfRows := 30\<rparr>)
   \<and> setNumOfRowSeats example_aircraft 4
       = Inr (example_aircraft\<lparr>numOfRowSeats := 4, numOfRows := 30\<rparr>)
   \<and> aircraft_invariant example_aircraft
   \<and> aircraft_invariant (example_aircraft\<lparr>capacity := 180, numOfRows := 30\<rparr>)
   \<and> aircraft_invariant (example_aircraft\<lparr>numOfRowSeats := 4, numOfRows := 30\<rparr>)
   \<and> aircraft_invariant (setModel example_aircraft ''A321'')
   \<and> (100::int) smod 7 \<noteq> 0
   \<and> AircraftModel_new Map.empty [''10001''] ''A320'' 100 7
       = (Inl InvalidArgument, [''10001''])"
proof -
  have h1: "AircraftModel_new Map.empty [''10001''] ''A320'' 120 6 = (Inr example_aircraft, [])"
    by (simp add: AircraftModel_new_def aircraft_checks_def MAX_SEATS_PER_ROW_def
        example_aircraft_def signed_modulo_int_def signed_divide_int_def)
  have h2: "AircraftModel_from_json (AircraftModel_to_json example_aircraft) = Inr example_aircraft"
    by (simp add: AircraftModel_from_json_def AircraftModel_to_json_def has_required_keys_def
        get_at_def substr_def to_int32_def aircraft_checks_def MAX_SEATS_PER_ROW_def
        example_aircraft_def signed_modulo_int_def signed_divide_int_def)
  have h3: "setCapacity example_aircraft 180
            = Inr (example_aircraft\<lparr>capacity := 180, numOfRows := 30\<rparr>)"
    by (simp add: setCapacity_def example_aircraft_def signed_modulo_int_def signed_divide_int_def)
  have h4: "setNumOfRowSeats example_aircraft 4
            = Inr (example_aircraft\<lparr>numOfRowSeats := 4, numOfRows := 30\<rparr>)"
    by (simp add: setNumOfRowSeats_def MAX_SEATS_PER_ROW_def example_aircraft_def
        signed_modulo_int_def signed_divide_int_def)
  note inst = aircraft_invariant_holds
    [where repo = Map.empty and draws = "[''10001'']" and mdl = "''A320''" and cap = 120
       and seats = 6 and na = example_aircraft and rest = "[]"
       and j = "AircraftModel_to_json example_aircraft" and ja = example_aircraft
       and ca = example_aircraft and c = 180
       and cb' = "example_aircraft\<lparr>capacity := 180, numOfRows := 30\<rparr>"
       and sa = example_aircraft and n = 4
       and sb' = "example_aircraft\<lparr>numOfRowSeats := 4, numOfRows := 30\<rparr>"
       and ma = example_aircraft and m = "''A321''" and ident = "''10001''"]
  have h5: "(100::int) smod 7 \<noteq> 0"
    by (simp add: signed_modulo_int_def)
  note rejected = aircraft_invariant_holds
    [where repo = Map.empty and draws = "[''10001'']" and mdl = "''A320''" and cap = 100
       and seats = 7 and na = example_aircraft and rest = "[]"
       and j = "AircraftModel_to_json example_aircraft" and ja = example_aircraft
       and ca = example_aircraft and c = 180
       and cb' = "example_aircraft\<lparr>capacity := 180, numOfRows := 30\<rparr>"
       and sa = example_aircraft and n = 4
       and sb' = "example_aircraft\<lparr>numOfRowSeats := 4, numOfRows := 30\<rparr>"
       and ma = example_aircraft and m = "''A321''" and ident = "''10001''"]
  have new_rejected: "AircraftModel_new Map.empty [''10001''] ''A320'' 100 7
       = (Inl InvalidArgument, [''10001''])"
    using rejected h5 by blast
  show ?thesis using inst h1 h2 h3 h4 h5 new_rejected by simp
qed

section \<open>Seat prices\<close>

text \<open>What \<open>getSeatPrice\<close> does with a seat string that is not empty: the exception of
  \<open>std::stoi\<close> leaves it, or the row \<open>std::stoi\<close> has read and the last character of
  the string fix the price before the discount.\<close>

lemma getSeatPrice_stoi_error:
  assumes "seat \<noteq> []" and "stoi (butlast seat) = Inl e"
  shows "getSeatPrice seat lp = Inl e"
proof -
  have sub: "substr seat 0 (length seat - 1) = butlast seat"
    by (simp add: substr_def butlast_conv_take)
  show ?thesis
    unfolding getSeatPrice_def sub using assms by simp
qed

lemma getSeatPrice_row:
  assumes "seat \<noteq> []" and "stoi (butlast seat) = Inr row"
  shows "getSeatPrice seat lp =
           Inr (float_sub (Finite (row_base_price row + fixed_column_premium (last seat)))
                  (std_min lp
                     (float_mul (Finite (row_base_price row + fixed_column_premium (last seat)))
                        (float_round (3 / 10)))))"
proof -
  have sub: "substr seat 0 (length seat - 1) = butlast seat"
    by (simp add: substr_def butlast_conv_take)
  show ?thesis
    unfolding getSeatPrice_def sub using assms
    by (simp add: row_base_price_def fixed_column_premium_def Let_def
        float_literals(1-6) float_totals)
qed


text \<open>The two roundings of the discounted price, and the rounding of the literal \<open>0.3f\<close>,
  move the result by less than a 400th of a cent from the exact formula.\<close>

lemma discount_accuracy:
  assumes "100 \<le> T" and "T \<le> 220" and "0 \<le> x"
  shows "\<exists>price. float_sub (Finite T) (std_min (Finite x) (float_mul (Finite T) (float_round (3 / 10))))
                   = Finite price
           \<and> \<bar>price - (T - min x (3 / 10 * T))\<bar> \<le> 1 / 40000"
proof -
  let ?c = "5033165 / 16777216 :: rat"
  have "\<bar>T * ?c\<bar> \<le> 1000" using assms by (simp add: abs_le_iff)
  from float_round_error[OF this] obtain m where
    m: "float_round (T * ?c) = Finite m"
    and me: "\<bar>m - T * ?c\<bar> \<le> \<bar>T * ?c\<bar> / 16777216 + 1 / 10 ^ 40" by blast
  have tc: "\<bar>T * ?c\<bar> = T * ?c" using assms by simp
  have mlo: "0 \<le> m" and mhi: "m \<le> 67" using me assms unfolding tc by (simp_all add: abs_le_iff)
  let ?d = "min x m"
  have d: "0 \<le> ?d" "?d \<le> 67" using mlo mhi assms by simp_all
  then have "\<bar>T - ?d\<bar> \<le> 1000" using assms by (simp add: abs_le_iff)
  from float_round_error[OF this] obtain price where
    p: "float_round (T - ?d) = Finite price"
    and pe: "\<bar>price - (T - ?d)\<bar> \<le> \<bar>T - ?d\<bar> / 16777216 + 1 / 10 ^ 40" by blast
  have td: "\<bar>T - ?d\<bar> \<le> 220" using d assms by (simp add: abs_le_iff)
  have eq: "float_sub (Finite T) (std_min (Finite x) (float_mul (Finite T) (float_round (3 / 10))))
              = Finite price"
  proof -
    have "float_mul (Finite T) (float_round (3 / 10)) = Finite m"
      by (simp only: float_literals(7) float_mul.simps m)
    then show ?thesis by (simp add: p)
  qed
  have dd: "\<bar>?d - min x (3 / 10 * T)\<bar> \<le> \<bar>m - 3 / 10 * T\<bar>" by linarith
  have "0 \<le> T * ?c - 3 / 10 * T" using assms by simp
  then have "\<bar>m - 3 / 10 * T\<bar> \<le> \<bar>m - T * ?c\<bar> + (T * ?c - 3 / 10 * T)"
    by linarith
  then have m3: "\<bar>m - 3 / 10 * T\<bar> \<le> 66 / 10000000" using me assms unfolding tc by simp
  have "\<bar>price - (T - min x (3 / 10 * T))\<bar> \<le> \<bar>price - (T - ?d)\<bar> + \<bar>?d - min x (3 / 10 * T)\<bar>"
    by linarith
  also have "\<dots> \<le> (220 / 16777216 + 1 / 10 ^ 40) + 66 / 10000000"
    using pe td dd m3 by simp
  also have "\<dots> \<le> 1 / 40000" by simp
  finally show ?thesis using eq by blast
qed




text \<open>
  Claim C6, amended. For the empty seat string \<open>getSeatPrice\<close> returns
  \<open>100 - min(loyaltyPoints, 100 * 0.3f)\<close>, computed in \<open>float\<close>, which for loyalty points
  that are a number \<open>x\<close> not below 0 is a number within 1/40000 of \<open>100 - min(x, 30)\<close>.
  For a string that is not empty the function does what \<open>std::stoi\<close> does on the string
  without its last character: when that throws, the same exception leaves
  \<open>getSeatPrice\<close>; when it returns a row, \<open>getSeatPrice\<close> returns the price that row
  and the last character of the string give, not the default.
\<close>

theorem seat_price_empty_default:
  "getSeatPrice [] lp
     = Inr (float_sub (Finite 100) (std_min lp (float_mul (Finite 100) (float_round (3 / 10)))))
   \<and> (0 \<le> x \<longrightarrow>
        (\<exists>price. getSeatPrice [] (Finite x) = Inr (Finite price)
           \<and> \<bar>price - (100 - min x 30)\<bar> \<le> 1 / 40000))
   \<and> (s \<noteq> [] \<longrightarrow>
        (case stoi (butlast s) of
           Inl e \<Rightarrow> getSeatPrice s lp = Inl e
         | Inr row \<Rightarrow>
             getSeatPrice s lp
               = Inr (float_sub (Finite (row_base_price row + fixed_column_premium (last s)))
                        (std_min lp
                           (float_mul (Finite (row_base_price row + fixed_column_premium (last s)))
                              (float_round (3 / 10)))))))"
proof -
  have empty: "getSeatPrice [] l
                 = Inr (float_sub (Finite 100) (std_min l (float_mul (Finite 100) (float_round (3 / 10)))))"
    for l
    by (simp add: getSeatPrice_def Let_def float_literals(4))
  have close: "\<exists>price. getSeatPrice [] (Finite x) = Inr (Finite price)
                 \<and> \<bar>price - (100 - min x 30)\<bar> \<le> 1 / 40000" if x: "0 \<le> x"
  proof -
    from discount_accuracy[OF _ _ x, of 100] obtain p where
      p: "float_sub (Finite 100) (std_min (Finite x) (float_mul (Finite 100) (float_round (3 / 10))))
            = Finite p"
      and pe: "\<bar>p - (100 - min x (3 / 10 * 100))\<bar> \<le> 1 / 40000" by auto
    have "getSeatPrice [] (Finite x) = Inr (Finite p)" unfolding empty p ..
    then show ?thesis using pe by auto
  qed
  have other: "case stoi (butlast s) of
           Inl e \<Rightarrow> getSeatPrice s lp = Inl e
         | Inr row \<Rightarrow>
             getSeatPrice s lp
               = Inr (float_sub (Finite (row_base_price row + fixed_column_premium (last s)))
                        (std_min lp
                           (float_mul (Finite (row_base_price row + fixed_column_premium (last s)))
                              (float_round (3 / 10)))))" if s: "s \<noteq> []"
    using getSeatPrice_stoi_error[OF s, of _ lp] getSeatPrice_row[OF s, of _ lp]
    by (cases "stoi (butlast s)") simp_all
  show ?thesis using empty[of lp] close other by blast
qed

text \<open>The empty seat string for 31 points, where the discount \<open>100 * 0.3f\<close> is a little
  more than 30 and the price is 70 all the same, and for the tenth of a point a \<open>float\<close>
  holds; the seat string \<open>1AA\<close>, which is priced as seat \<open>1A\<close> is; and a row too large
  for an \<open>int\<close>, on which \<open>std::stoi\<close> throws \<open>std::out_of_range\<close>.\<close>

theorem seat_price_empty_default_witness:
  "(0::rat) \<le> 31 \<and> ''1AA'' \<noteq> [] \<and> ''99999999999A'' \<noteq> []
   \<and> getSeatPrice [] (Finite 31) = Inr (Finite 70)
   \<and> float_mul (Finite 100) (float_round (3 / 10)) = Finite (15728641 / 524288)
   \<and> getSeatPrice [] (Finite (13421773 / 134217728)) = Inr (Finite (13094093 / 131072))
   \<and> getSeatPrice ''1AA'' (Finite 0) = Inr (Finite 220)
   \<and> getSeatPrice ''99999999999A'' (Finite 0) = Inl OutOfRange"
proof -
  have st: "stoi ''1A'' = Inr 1" "stoi ''99999999999'' = Inl OutOfRange"
    by (simp_all add: stoi_def isdigit_def isspace_def decimal_def digit_value_def
        INT_MAX_def INT_MIN_def Let_def)
  show ?thesis
    using seat_price_empty_default [of "Finite 31" 31 "''1AA''"]
      seat_price_empty_default [of "Finite (13421773 / 134217728)" "13421773 / 134217728" "''1AA''"]
      seat_price_empty_default [of "Finite 0" 0 "''1AA''"]
      seat_price_empty_default [of "Finite 0" 0 "''99999999999A''"]
    by (simp add: st row_base_price_def fixed_column_premium_def float_round_defs)
qed

text \<open>
  Claim C6 as stated fails: the seat string \<open>A\<close> has no row, and \<open>getSeatPrice\<close> does
  not return on it: \<open>std::stoi\<close> throws \<open>std::invalid_argument\<close>.
\<close>

theorem seat_price_invalid_code_counterexample:
  "getSeatPrice ''A'' (Finite 0) = Inl InvalidArgument"
  by (simp add: getSeatPrice_def stoi_def substr_def isdigit_def isspace_def Let_def)

section \<open>Writes to the seat grid\<close>

lemma getSeatIndices_sentinel_or_nonneg:
  "getSeatIndices acs f s = (-1, -1)
   \<or> (0 \<le> fst (getSeatIndices acs f s) \<and> 0 \<le> snd (getSeatIndices acs f s))"
  by (auto simp: getSeatIndices_def Let_def split: option.splits sum.splits)

lemma setSeatStatus_Inr:
  assumes "setSeatStatus acs f s b = Inr f'"
  shows "\<exists>row col. getSeatIndices acs f s = (int row, int col)
           \<and> row < length (seatMap f) \<and> col < length (seatMap f ! row)
           \<and> f' = f\<lparr>seatMap := (seatMap f)[row := (seatMap f ! row)[col := b]]\<rparr>"
proof -
  let ?ix = "getSeatIndices acs f s"
  from assms have ns: "fst ?ix \<noteq> -1 \<and> snd ?ix \<noteq> -1"
    by (auto simp: setSeatStatus_def Let_def split: if_splits)
  with getSeatIndices_sentinel_or_nonneg[of acs f s]
  have nn: "0 \<le> fst ?ix \<and> 0 \<le> snd ?ix" by auto
  from assms ns have
    bounds: "nat (fst ?ix) < length (seatMap f) \<and> nat (snd ?ix) < length (seatMap f ! nat (fst ?ix))"
    and f': "f' = f\<lparr>seatMap := (seatMap f)[nat (fst ?ix) :=
                       (seatMap f ! nat (fst ?ix))[nat (snd ?ix) := b]]\<rparr>"
    by (auto simp: setSeatStatus_def Let_def split: if_splits)
  have "?ix = (int (nat (fst ?ix)), int (nat (snd ?ix)))"
    using nn by (simp add: prod_eq_iff)
  with bounds f' show ?thesis by blast
qed

lemma getSeatIndices_seatMap_update [simp]:
  "getSeatIndices acs (f\<lparr>seatMap := g\<rparr>) s = getSeatIndices acs f s"
  by (simp add: getSeatIndices_def)

lemma getSeatStatus_after_set:
  assumes "setSeatStatus acs f s b = Inr f'"
  shows "getSeatStatus acs f' s = Inr b"
proof -
  from setSeatStatus_Inr[OF assms] obtain row col where
    ix: "getSeatIndices acs f s = (int row, int col)" and
    r: "row < length (seatMap f)" and c: "col < length (seatMap f ! row)" and
    f': "f' = f\<lparr>seatMap := (seatMap f)[row := (seatMap f ! row)[col := b]]\<rparr>"
    by blast
  show ?thesis
    using ix r c unfolding f' by (simp add: getSeatStatus_def Let_def)
qed


lemma reservation_fields_flight:
  assumes "reservation_fields w j = Inr (rid, fid, pid, st, seat)"
  shows "flights w fid \<noteq> None"
  using assms
  by (auto simp: reservation_fields_def bind_result_Inr split: if_splits)



section \<open>Cancellation\<close>

lemma setSeatStatus_returns_if_cell_exists:
  assumes "getSeatStatus acs f s = Inr b"
  shows "\<exists>f'. setSeatStatus acs f s v = Inr f'"
  using assms by (auto simp: getSeatStatus_def setSeatStatus_def Let_def split: if_splits)

lemma setSeatStatus_invalid:
  assumes "\<not> isValidSeat acs f s"
  shows "setSeatStatus acs f s v = Inl InvalidArgument"
  using assms by (auto simp: isValidSeat_def setSeatStatus_def Let_def)

text \<open>
  Claim C5, amended. \<open>deleteReservation\<close> on a stored reservation: when the flight of
  the reservation is no longer in the repository, the seat is left alone, the reservation
  is deleted and the result is true; when the flight is there and the seat code of the
  reservation resolves to a cell of its grid, that cell is set to free, the reservation is
  deleted and the result is true; when the flight is there and the seat code is not valid
  for it (its aircraft has been deleted, say), \<open>std::invalid_argument\<close> leaves the
  function and nothing has changed: the reservation stays.
\<close>

theorem delete_reservation_frees_seat:
  assumes "reservations w rid = Some r"
  shows "(flights w (reservationFlightId r) = None \<longrightarrow>
            deleteReservation w rid
              = (Inr True, w\<lparr>reservations := (reservations w)(rid := None)\<rparr>))
         \<and> (\<forall>flight b.
               flights w (reservationFlightId r) = Some flight
               \<and> getSeatStatus (aircrafts w) flight (seatNumber r) = Inr b \<longrightarrow>
               (\<exists>flight'.
                  setSeatStatus (aircrafts w) flight (seatNumber r) False = Inr flight'
                  \<and> getSeatStatus (aircrafts w) flight' (seatNumber r) = Inr False
                  \<and> deleteReservation w rid
                      = (Inr True,
                         w\<lparr>flights := (flights w)(reservationFlightId r \<mapsto> flight'),
                           reservations := (reservations w)(rid := None)\<rparr>)))
         \<and> (\<forall>flight.
               flights w (reservationFlightId r) = Some flight
               \<and> \<not> isValidSeat (aircrafts w) flight (seatNumber r) \<longrightarrow>
               deleteReservation w rid = (Inl InvalidArgument, w))"
proof (intro conjI allI impI)
  assume "flights w (reservationFlightId r) = None"
  with assms show "deleteReservation w rid
              = (Inr True, w\<lparr>reservations := (reservations w)(rid := None)\<rparr>)"
    by (simp add: deleteReservation_def Repository_deleteReservation_def)
next
  fix flight b
  assume h: "flights w (reservationFlightId r) = Some flight
             \<and> getSeatStatus (aircrafts w) flight (seatNumber r) = Inr b"
  then obtain flight' where
    set: "setSeatStatus (aircrafts w) flight (seatNumber r) False = Inr flight'"
    using setSeatStatus_returns_if_cell_exists by blast
  have "deleteReservation w rid
          = (Inr True,
             w\<lparr>flights := (flights w)(reservationFlightId r \<mapsto> flight'),
               reservations := (reservations w)(rid := None)\<rparr>)"
    using assms h set
    by (simp add: deleteReservation_def Repository_deleteReservation_def Let_def)
  with set getSeatStatus_after_set[OF set]
  show "\<exists>flight'.
          setSeatStatus (aircrafts w) flight (seatNumber r) False = Inr flight'
          \<and> getSeatStatus (aircrafts w) flight' (seatNumber r) = Inr False
          \<and> deleteReservation w rid
              = (Inr True,
                 w\<lparr>flights := (flights w)(reservationFlightId r \<mapsto> flight'),
                   reservations := (reservations w)(rid := None)\<rparr>)"
    by blast
next
  fix flight
  assume h: "flights w (reservationFlightId r) = Some flight
             \<and> \<not> isValidSeat (aircrafts w) flight (seatNumber r)"
  then have "setSeatStatus (aircrafts w) flight (seatNumber r) False = Inl InvalidArgument"
    using setSeatStatus_invalid by blast
  with assms h show "deleteReservation w rid = (Inl InvalidArgument, w)"
    by (simp add: deleteReservation_def)
qed

text \<open>
  Claim C5 as stated fails. In the world where the reservation and its flight are stored
  and the aircraft of the flight has been deleted, \<open>deleteReservation\<close> does not return
  true: \<open>std::invalid_argument\<close> leaves it, and the reservation is still stored.
\<close>

theorem delete_reservation_missing_aircraft_counterexample:
  "reservations orphaned_world ''RES-50001'' = Some example_reservation
   \<and> flights orphaned_world (reservationFlightId example_reservation) = Some example_flight
   \<and> fst (deleteReservation orphaned_world ''RES-50001'') = Inl InvalidArgument
   \<and> reservations (snd (deleteReservation orphaned_world ''RES-50001'')) ''RES-50001''
       = Some example_reservation"
  by (simp add: deleteReservation_def setSeatStatus_def getSeatIndices_def orphaned_world_def
      example_world_def example_reservation_def example_flight_def)

theorem delete_reservation_frees_seat_witness:
  "reservations booked_world ''RES-50001'' = Some example_reservation
   \<and> reservations flightless_world ''RES-50001'' = Some example_reservation
   \<and> reservations orphaned_world ''RES-50001'' = Some example_reservation
   \<and> fst (deleteReservation flightless_world ''RES-50001'') = Inr True
   \<and> reservations (snd (deleteReservation flightless_world ''RES-50001'')) ''RES-50001'' = None
   \<and> fst (deleteReservation booked_world ''RES-50001'') = Inr True
   \<and> reservations (snd (deleteReservation booked_world ''RES-50001'')) ''RES-50001'' = None
   \<and> (\<exists>flight'. flights (snd (deleteReservation booked_world ''RES-50001'')) ''FL-20001''
                     = Some flight'
                   \<and> getSeatStatus (aircrafts booked_world) flight' ''3A'' = Inr False)
   \<and> deleteReservation orphaned_world ''RES-50001'' = (Inl InvalidArgument, orphaned_world)"
proof -
  let ?booked_flight = "example_flight\<lparr>seatMap := (replicate 20 (replicate 6 False))[2 :=
                                        (replicate 6 False)[0 := True]]\<rparr>"
  have r1: "reservations booked_world ''RES-50001'' = Some example_reservation"
    and r2: "reservations flightless_world ''RES-50001'' = Some example_reservation"
    and r3: "reservations orphaned_world ''RES-50001'' = Some example_reservation"
    by (simp_all add: booked_world_def flightless_world_def orphaned_world_def example_world_def)
  have f2: "flights flightless_world (reservationFlightId example_reservation) = None"
    by (simp add: flightless_world_def)
  have f1: "flights booked_world (reservationFlightId example_reservation) = Some ?booked_flight"
    by (simp add: booked_world_def example_reservation_def)
  have f3: "flights orphaned_world (reservationFlightId example_reservation) = Some example_flight"
    by (simp add: orphaned_world_def example_world_def example_reservation_def)
  have ix: "getSeatIndices (aircrafts booked_world) example_flight ''3A'' = (2, 0)"
    by (simp add: booked_world_def example_world_def example_flight_def example_aircraft_def
        seat_code_defs Let_def)
  have s1: "getSeatStatus (aircrafts booked_world) ?booked_flight (seatNumber example_reservation)
            = Inr True"
    by (simp add: example_reservation_def getSeatStatus_def ix Let_def)
  have s3: "\<not> isValidSeat (aircrafts orphaned_world) example_flight (seatNumber example_reservation)"
    by (simp add: isValidSeat_def getSeatIndices_def orphaned_world_def)
  from delete_reservation_frees_seat[OF r2] f2
  have d2: "deleteReservation flightless_world ''RES-50001''
              = (Inr True, flightless_world\<lparr>reservations :=
                              (reservations flightless_world)(''RES-50001'' := None)\<rparr>)"
    by blast
  from delete_reservation_frees_seat[OF r1] f1 s1 obtain flight' where
    g1: "getSeatStatus (aircrafts booked_world) flight' (seatNumber example_reservation) = Inr False"
    and d1: "deleteReservation booked_world ''RES-50001''
              = (Inr True,
                 booked_world\<lparr>flights := (flights booked_world)(reservationFlightId example_reservation \<mapsto> flight'),
                   reservations := (reservations booked_world)(''RES-50001'' := None)\<rparr>)"
    by blast
  from delete_reservation_frees_seat[OF r3] f3 s3
  have d3: "deleteReservation orphaned_world ''RES-50001'' = (Inl InvalidArgument, orphaned_world)"
    by blast
  have g1': "getSeatStatus (aircrafts booked_world) flight' ''3A'' = Inr False"
    using g1 by (simp add: example_reservation_def)
  show ?thesis
    using r1 r2 r3 d2 d3 g1' by (simp add: d1 example_reservation_def)
qed

section \<open>Booking\<close>

lemma fresh_id_not_taken:
  "fresh_id prefix taken draws = Some (ident, rest) \<Longrightarrow> \<not> taken ident"
  by (induction draws) (auto split: if_splits)

lemma PaymentModel_new_cases:
  assumes "PaymentModel_new w pid amt strategy st date = (res, w1)"
  shows "(res = Inl InvalidArgument \<and> w1 = w)
         \<or> (res = Inl NoFreshId \<and> w1 = w\<lparr>idDraws := []\<rparr>)
         \<or> (\<exists>payment rest. res = Inr payment \<and> w1 = w\<lparr>idDraws := rest\<rparr>
               \<and> payments w (paymentId payment) = None)"
proof (cases "pid = [] \<or> le_floating amt (Finite 0) \<or> strategy = None \<or> users w pid = None")
  case True
  with assms show ?thesis by (auto simp: PaymentModel_new_def split: if_splits)
next
  case False
  show ?thesis
  proof (cases "fresh_id ''PAY-'' (\<lambda>i. payments w i \<noteq> None) (idDraws w)")
    case None
    with assms False show ?thesis by (auto simp: PaymentModel_new_def)
  next
    case (Some p)
    obtain ident rest where p: "p = (ident, rest)" by (cases p)
    from fresh_id_not_taken[OF Some[unfolded p]] have fresh: "payments w ident = None" by simp
    let ?payment = "\<lparr>paymentId = ident, paymentPassengerId = pid, amount = amt,
                     paymentStrategy = strategy,
                     paymentDate = (if isValid date then date else clock w),
                     paymentStatus = st\<rparr>"
    have "res = Inr ?payment \<and> w1 = w\<lparr>idDraws := rest\<rparr>"
      using assms False Some p by (auto simp: PaymentModel_new_def)
    moreover have "payments w (paymentId ?payment) = None" using fresh by simp
    ultimately show ?thesis by blast
  qed
qed

lemma at_key_error: "at_key j k = Inl e \<Longrightarrow> e = JsonError"
  by (cases j) (auto split: option.splits)

lemma get_string_error: "get_string j = Inl e \<Longrightarrow> e = JsonError"
  by (cases j) auto

lemma get_at_string_error: "get_at get_string j k = Inl e \<Longrightarrow> e = JsonError"
  by (auto simp: get_at_def split: sum.splits dest: at_key_error get_string_error)

lemma PaypalPayment_new_error: "PaypalPayment_new email = Inl e \<Longrightarrow> e = InvalidArgument"
  by (auto simp: PaypalPayment_new_def split: if_splits option.splits)

lemma CreditPayment_new_error: "CreditPayment_new n x c = Inl e \<Longrightarrow> e = InvalidArgument"
  by (auto simp: CreditPayment_new_def split: if_splits)

text \<open>Every exception of the strategy factory is one that \<open>createPayment\<close> catches.\<close>

lemma createPaymentStrategy_error:
  assumes "createPaymentStrategy method details = Inl e"
  shows "is_std_exception e"
proof -
  have "e = InvalidArgument \<or> e = JsonError"
    using assms
    by (auto simp: createPaymentStrategy_def bind_result_Inl split: if_splits
        dest: get_at_string_error PaypalPayment_new_error CreditPayment_new_error)
  then show ?thesis by auto
qed

text \<open>What \<open>createPayment\<close> can do to the world: nothing when it returns no payment; when
  it returns a payment, it has stored that payment and taken draws.\<close>

lemma createPayment_cases:
  assumes "createPayment w pid amt method details = (res, w1)"
  shows "(res = Inr None \<and> w1 = w)
         \<or> (res = Inl NoFreshId \<and> w1 = w\<lparr>idDraws := []\<rparr>)
         \<or> (\<exists>payment rest. res = Inr (Some payment)
               \<and> w1 = w\<lparr>idDraws := rest, payments := (payments w)(paymentId payment \<mapsto> payment)\<rparr>)"
proof (cases "createPaymentStrategy method details")
  case (Inl e)
  have "is_std_exception e" using Inl by (rule createPaymentStrategy_error)
  with assms Inl show ?thesis by (simp add: createPayment_def)
next
  case (Inr strategy)
  obtain r0 w0 where new: "PaymentModel_new w pid amt (Some strategy) PENDING (clock w) = (r0, w0)"
    by (cases "PaymentModel_new w pid amt (Some strategy) PENDING (clock w)")
  from PaymentModel_new_cases[OF new] show ?thesis
  proof (elim disjE exE conjE)
    assume "r0 = Inl InvalidArgument" "w0 = w"
    with assms Inr new show ?thesis by (simp add: createPayment_def)
  next
    assume "r0 = Inl NoFreshId" "w0 = w\<lparr>idDraws := []\<rparr>"
    with assms Inr new show ?thesis by (simp add: createPayment_def)
  next
    fix payment rest
    assume "r0 = Inr payment" "w0 = w\<lparr>idDraws := rest\<rparr>" "payments w (paymentId payment) = None"
    with assms Inr new have
      "res = Inr (Some payment)
       \<and> w1 = w\<lparr>idDraws := rest, payments := (payments w)(paymentId payment \<mapsto> payment)\<rparr>"
      by (auto simp: createPayment_def addPayment_def)
    then show ?thesis by blast
  qed
qed

lemma createPayment_None_unchanged:
  assumes "fst (createPayment w pid amt method details) = Inr None"
  shows "createPayment w pid amt method details = (Inr None, w)"
proof -
  obtain res w1 where c: "createPayment w pid amt method details = (res, w1)"
    by (cases "createPayment w pid amt method details")
  with assms have "res = Inr None" by simp
  with createPayment_cases[OF c] c show ?thesis by auto
qed





text \<open>
  Claim C3. When \<open>addReservation\<close> reaches the creation of the payment (the user is a
  passenger, the flight exists, the seat is free and has a price) and
  \<open>createPayment\<close> returns no payment, \<open>addReservation\<close> returns no reservation and
  the world is the one it started in: no reservation is stored, the grid of the flight
  is not written and the loyalty points of the passenger are not written.
\<close>

theorem failed_payment_changes_nothing:
  assumes "users w pid = Some (PassengerObject u lp)" and "role u = Passenger"
    and "flights w fid = Some flight"
    and "getSeatStatus (aircrafts w) flight seat = Inr False"
    and "getSeatPrice seat lp = Inr price"
    and "fst (createPayment w pid price method details) = Inr None"
  shows "addReservation w fid seat pid method details = (Inr None, w)"
  using assms createPayment_None_unchanged[OF assms(6)]
  by (simp add: addReservation_def Let_def)

lemma example_seat_3A:
  "getSeatIndices (aircrafts example_world) example_flight ''3A'' = (2, 0)"
  "getSeatStatus (aircrafts example_world) example_flight ''3A'' = Inr False"
  "setSeatStatus (aircrafts example_world) example_flight ''3A'' True
     = Inr (example_flight\<lparr>seatMap := (replicate 20 (replicate 6 False))[2 :=
                                        (replicate 6 False)[0 := True]]\<rparr>)"
  "getSeatPrice ''3A'' (Finite 0) = Inr (Finite 220)"
proof -
  show ix: "getSeatIndices (aircrafts example_world) example_flight ''3A'' = (2, 0)"
    by (simp add: example_defs seat_code_defs Let_def)
  show "getSeatStatus (aircrafts example_world) example_flight ''3A'' = Inr False"
    by (simp add: getSeatStatus_def ix Let_def) (simp add: example_flight_def)
  show "setSeatStatus (aircrafts example_world) example_flight ''3A'' True
     = Inr (example_flight\<lparr>seatMap := (replicate 20 (replicate 6 False))[2 :=
                                        (replicate 6 False)[0 := True]]\<rparr>)"
    by (simp add: setSeatStatus_def ix Let_def) (simp add: example_flight_def)
  show "getSeatPrice ''3A'' (Finite 0) = Inr (Finite 220)"
    by (simp add: getSeatPrice_def seat_code_defs float_round_defs)
qed

text \<open>The loyalty points a booking leaves: a passenger without points who pays 220 earns
  \<open>220 * 0.1f\<close>, and one with 100 points who pays 154 keeps \<open>100 - 154 * 0.1f\<close>, both
  rounded to \<open>float\<close>.\<close>

lemma adjusted_loyalty_examples:
  "adjusted_loyalty (Finite 0) (Finite 220) = Finite 22"
  "adjusted_loyalty (Finite 100) (Finite 154) = Finite (11088691 / 131072)"
  by (simp_all add: adjusted_loyalty_def float_round_defs)

lemma example_createPayment_cash:
  "createPayment example_world ''PAS-30001'' (Finite 220) ''cash'' JNull
     = (Inr (Some example_payment),
        example_world\<lparr>idDraws := [''50001''],
                       payments := [''PAY-40001'' \<mapsto> example_payment]\<rparr>)"
  by (simp add: createPayment_def createPaymentStrategy_def PaymentModel_new_def addPayment_def
      le_floating_def isValid_def example_world_def example_payment_def example_passenger_def)




text \<open>The example passenger tries to pay with a method the strategy factory does not
  know, or with a PayPal address outside \<open>paypal.com\<close>: nothing is booked, nothing
  changes.\<close>

theorem failed_payment_changes_nothing_witness:
  "users example_world ''PAS-30001''
     = Some (PassengerObject \<lparr>userId = ''PAS-30001'', username = ''mona'',
                              password = ''secret'', role = Passenger\<rparr> (Finite 0))
   \<and> flights example_world ''FL-20001'' = Some example_flight
   \<and> getSeatStatus (aircrafts example_world) example_flight ''3A'' = Inr False
   \<and> getSeatPrice ''3A'' (Finite 0) = Inr (Finite 220)
   \<and> fst (createPayment example_world ''PAS-30001'' (Finite 220) ''bitcoin'' JNull) = Inr None
   \<and> fst (createPayment example_world ''PAS-30001'' (Finite 220) ''paypal''
             (JObject [(''email'', JString ''mona@example.com'')])) = Inr None
   \<and> addReservation example_world ''FL-20001'' ''3A'' ''PAS-30001'' ''bitcoin'' JNull
       = (Inr None, example_world)
   \<and> addReservation example_world ''FL-20001'' ''3A'' ''PAS-30001'' ''paypal''
         (JObject [(''email'', JString ''mona@example.com'')])
       = (Inr None, example_world)"
proof -
  have user: "users example_world ''PAS-30001''
              = Some (PassengerObject \<lparr>userId = ''PAS-30001'', username = ''mona'',
                                       password = ''secret'', role = Passenger\<rparr> (Finite 0))"
    by (simp add: example_world_def example_passenger_def)
  have role: "role \<lparr>userId = ''PAS-30001'', username = ''mona'',
                    password = ''secret'', role = Passenger\<rparr> = Passenger"
    by simp
  have fl: "flights example_world ''FL-20001'' = Some example_flight"
    by (simp add: example_world_def)
  have p1: "fst (createPayment example_world ''PAS-30001'' (Finite 220) ''bitcoin'' JNull) = Inr None"
    by (simp add: createPayment_def createPaymentStrategy_def)
  have p2: "fst (createPayment example_world ''PAS-30001'' (Finite 220) ''paypal''
             (JObject [(''email'', JString ''mona@example.com'')])) = Inr None"
    by (simp add: createPayment_def createPaymentStrategy_def PaypalPayment_new_def get_at_def)
  show ?thesis
    using failed_payment_changes_nothing [OF user role fl example_seat_3A(2) example_seat_3A(4) p1]
      failed_payment_changes_nothing [OF user role fl example_seat_3A(2) example_seat_3A(4) p2]
      user fl example_seat_3A(2) example_seat_3A(4) p1 p2
    by simp
qed

section \<open>JSON round trips\<close>

lemma toString_example:
  "toString \<lparr>year = 2025, month = 5, day = 20, hour = 12, minute = 0\<rparr> = ''2025-05-20 12:00''"
  by (simp add: toString_def pad2_def to_string_def nat_to_string.simps digit_char_def)

lemma DateTime_of_string_example:
  "DateTime_of_string ''2025-05-20 12:00''
     = Inr \<lparr>year = 2025, month = 5, day = 20, hour = 12, minute = 0\<rparr>"
  by (simp add: DateTime_of_string_def trim_def find_last_not_of_def parseDateOnly_def
      parseTimeOnly_def find_char_from_def isValid_def stoi_def substr_def isdigit_def
      isspace_def decimal_def digit_value_def INT_MAX_def INT_MIN_def Let_def)

text \<open>Every payment \<open>createPayment\<close> stores has the status \<open>PENDING\<close>.\<close>

lemma createPayment_pending:
  assumes "createPayment w pid amt method details = (Inr (Some payment), w1)"
  shows "paymentStatus payment = PENDING"
proof (cases "createPaymentStrategy method details")
  case (Inl e)
  with assms show ?thesis by (simp add: createPayment_def split: if_splits)
next
  case (Inr strategy)
  show ?thesis
  proof (cases "fresh_id ''PAY-'' (\<lambda>i. payments w i \<noteq> None) (idDraws w)")
    case None
    with assms Inr show ?thesis
      by (auto simp: createPayment_def PaymentModel_new_def split: if_splits)
  next
    case (Some p)
    obtain ident rest where p: "p = (ident, rest)" by (cases p)
    from fresh_id_not_taken[OF Some[unfolded p]] have "payments w ident = None" by simp
    with assms Inr Some p show ?thesis
      by (auto simp: createPayment_def PaymentModel_new_def addPayment_def split: if_splits)
  qed
qed

text \<open>The JSON of a pending payment carries the status \<open>UNKNOWN\<close>, which the JSON
  constructor refuses: no pending payment can be read back, in any world.\<close>

lemma pending_payment_never_reloads:
  assumes "paymentStatus p = PENDING"
  shows "\<exists>e. PaymentModel_from_json w (PaymentModel_to_json p) = Inl e"
proof (cases "PaymentModel_from_json w (PaymentModel_to_json p)")
  case (Inl e)
  then show ?thesis by blast
next
  case (Inr q)
  then have False
    using assms
    by (auto simp: PaymentModel_from_json_def PaymentModel_to_json_def bind_result_Inr
        get_at_def split: if_splits)
  then show ?thesis ..
qed

lemma to_int32_id: "INT_MIN \<le> n \<Longrightarrow> n \<le> INT_MAX \<Longrightarrow> to_int32 n = n"
  by (simp add: to_int32_def INT_MIN_def INT_MAX_def)

text \<open>An aircraft that satisfies what its JSON constructor checks is read back as it
  was.\<close>

lemma aircraft_json_round_trip:
  assumes "aircraft_invariant a" and "model a \<noteq> []" and "take 3 (aircraftId a) = ''AC-''"
    and "capacity a \<le> INT_MAX"
  shows "AircraftModel_from_json (AircraftModel_to_json a) = Inr a"
proof -
  from assms(1) have cap: "0 < capacity a" and s1: "1 \<le> numOfRowSeats a"
    and s26: "numOfRowSeats a \<le> 26" and m: "capacity a smod numOfRowSeats a = 0"
    and rows: "numOfRows a = capacity a sdiv numOfRowSeats a"
    by (auto simp: aircraft_invariant_def)
  have c32: "to_int32 (capacity a) = capacity a"
    using cap assms(4) by (intro to_int32_id) (simp_all add: INT_MIN_def)
  have s32: "to_int32 (numOfRowSeats a) = numOfRowSeats a"
    using s1 s26 by (intro to_int32_id) (simp_all add: INT_MIN_def INT_MAX_def)
  have chk: "aircraft_checks (model a) (capacity a) (numOfRowSeats a) = None"
    using assms(2) cap s1 s26 m by (simp add: aircraft_checks_def MAX_SEATS_PER_ROW_def)
  show ?thesis
    using assms(3) rows
    by (simp add: AircraftModel_from_json_def AircraftModel_to_json_def has_required_keys_def
        get_at_def substr_def c32 s32 chk)
qed

text \<open>
  Claim C8, a defect of the code. The payment that \<open>createPayment\<close> stores for the
  example booking has the status \<open>PENDING\<close>; \<open>to_json\<close> writes its status as
  \<open>UNKNOWN\<close>, because the \<open>switch\<close> has no case for \<open>PENDING\<close>; and the JSON
  constructor throws \<open>std::invalid_argument\<close> on that JSON, in the very world that
  holds the payment and its passenger: the round trip does not give the payment back.
\<close>

theorem pending_payment_round_trip_fails:
  "fst (createPayment example_world ''PAS-30001'' (Finite 220) ''cash'' JNull) = Inr (Some example_payment)
   \<and> paymentStatus example_payment = PENDING
   \<and> PaymentModel_to_json example_payment
       = JObject [(''id'', JString ''PAY-40001''), (''passengerId'', JString ''PAS-30001''),
                  (''amount'', JFloat (Finite 220)), (''method'', JString ''cash''),
                  (''paymentDate'', JString ''2025-05-20 12:00''), (''details'', JNull),
                  (''status'', JString ''UNKNOWN'')]
   \<and> PaymentModel_from_json paid_world (PaymentModel_to_json example_payment)
       = Inl InvalidArgument"
proof -
  have created: "fst (createPayment example_world ''PAS-30001'' (Finite 220) ''cash'' JNull)
                 = Inr (Some example_payment)"
    by (simp add: example_createPayment_cash)
  have pending: "paymentStatus example_payment = PENDING"
    by (simp add: example_payment_def)
  have json: "PaymentModel_to_json example_payment
       = JObject [(''id'', JString ''PAY-40001''), (''passengerId'', JString ''PAS-30001''),
                  (''amount'', JFloat (Finite 220)), (''method'', JString ''cash''),
                  (''paymentDate'', JString ''2025-05-20 12:00''), (''details'', JNull),
                  (''status'', JString ''UNKNOWN'')]"
    by (simp add: PaymentModel_to_json_def example_payment_def toString_example)
  have user: "users paid_world ''PAS-30001'' \<noteq> None"
    by (simp add: paid_world_def example_world_def)
  have valid: "isValid \<lparr>year = 2025, month = 5, day = 20, hour = 12, minute = 0\<rparr>"
    by (simp add: isValid_def)
  have reload: "PaymentModel_from_json paid_world (PaymentModel_to_json example_payment)
                = Inl InvalidArgument"
    unfolding json
    using user valid
    by (simp add: PaymentModel_from_json_def has_required_keys_def get_at_def substr_def
        createPaymentStrategy_def DateTime_of_string_example)
  show ?thesis using created pending json reload by simp
qed

subsection \<open>Dates and times\<close>

lemma decimal_snoc: "decimal (ds @ [c]) = 10 * decimal ds + digit_value c"
  by (simp add: decimal_def)

lemma less_10_cases:
  "d < 10 \<Longrightarrow> d = 0 \<or> d = 1 \<or> d = 2 \<or> d = 3 \<or> d = 4 \<or> d = 5 \<or> d = 6 \<or> d = 7 \<or> d = 8 \<or> d = (9::nat)"
  by arith

lemma digit_char_props:
  assumes "d < 10"
  shows "isdigit (digit_char d) \<and> digit_value (digit_char d) = int d"
  using less_10_cases[OF assms]
  by (elim disjE) (simp_all add: digit_char_def isdigit_def digit_value_def)

lemma nat_to_string_digits:
  "nat_to_string n \<noteq> [] \<and> list_all isdigit (nat_to_string n)"
proof (induction n rule: nat_to_string.induct)
  case (1 n)
  show ?case
  proof (cases "n < 10")
    case True
    then show ?thesis
      by (subst (1 2) nat_to_string.simps) (simp add: digit_char_props)
  next
    case False
    have "n mod 10 < 10" by simp
    with False 1 show ?thesis
      by (subst (1 2) nat_to_string.simps) (simp add: digit_char_props)
  qed
qed

lemma decimal_nat_to_string: "decimal (nat_to_string n) = int n"
proof (induction n rule: nat_to_string.induct)
  case (1 n)
  show ?case
  proof (cases "n < 10")
    case True
    then show ?thesis
      by (subst nat_to_string.simps) (simp add: decimal_def digit_char_props)
  next
    case False
    have m: "n mod 10 < 10" by simp
    have "decimal (nat_to_string n)
            = 10 * decimal (nat_to_string (n div 10)) + digit_value (digit_char (n mod 10))"
      using False by (subst nat_to_string.simps) (simp add: decimal_snoc)
    also have "\<dots> = 10 * int (n div 10) + int (n mod 10)"
      using 1 False m by (simp add: digit_char_props)
    also have "\<dots> = int n" by (simp add: zdiv_int zmod_int)
    finally show ?thesis .
  qed
qed

lemma stoi_nat_to_string:
  assumes "int n \<le> INT_MAX"
  shows "stoi (nat_to_string n) = Inr (int n)"
  using stoi_digits[of "nat_to_string n"] nat_to_string_digits[of n] assms
  by (simp add: decimal_nat_to_string)

text \<open>A number below 100 is printed with two digits.\<close>

lemma pad2_props:
  assumes "0 \<le> n" and "n < 100"
  shows "length (pad2 n) = 2 \<and> list_all isdigit (pad2 n) \<and> decimal (pad2 n) = n"
proof (cases "n < 10")
  case True
  then have lt: "nat n < 10" using assms by simp
  have "pad2 n = [CHR ''0'', digit_char (nat n)]"
    using True assms lt by (simp add: pad2_def to_string_def nat_to_string.simps[of "nat n"])
  then show ?thesis
    using digit_char_props[OF lt] assms
    by (simp add: decimal_def) (simp add: isdigit_def digit_value_def)
next
  case False
  let ?k = "nat n"
  have hi: "?k div 10 < 10" and lo: "?k mod 10 < 10" using assms by simp_all
  have ge: "\<not> ?k < 10" using False by simp
  have "nat_to_string ?k = [digit_char (?k div 10), digit_char (?k mod 10)]"
    using ge hi
    by (simp add: nat_to_string.simps[of ?k] nat_to_string.simps[of "?k div 10"])
  then have p: "pad2 n = [digit_char (?k div 10), digit_char (?k mod 10)]"
    using False assms by (simp add: pad2_def to_string_def)
  have "decimal (pad2 n) = 10 * int (?k div 10) + int (?k mod 10)"
    using digit_char_props[OF hi] digit_char_props[OF lo] by (simp add: p decimal_def)
  also have "\<dots> = int ?k" by (simp add: zdiv_int zmod_int)
  finally have "decimal (pad2 n) = n" using assms by simp
  then show ?thesis
    using digit_char_props[OF hi] digit_char_props[OF lo] by (simp add: p)
qed

lemma find_char_first:
  "c \<notin> set xs \<Longrightarrow> find_char (xs @ c # ys) c = Some (length xs)"
  by (induction xs) auto

lemma digits_without:
  assumes "list_all isdigit ds" and "\<not> isdigit c"
  shows "c \<notin> set ds"
  using assms by (auto simp: list_all_iff)

lemma not_digit_separators:
  "\<not> isdigit CHR ''-''" "\<not> isdigit CHR '' ''" "\<not> isdigit CHR '':''" "\<not> isdigit CHR 0x09"
  by (simp_all add: isdigit_def)

lemma stoi_digit_string:
  assumes "ds \<noteq> []" and "list_all isdigit ds" and "decimal ds \<le> INT_MAX"
  shows "stoi ds = Inr (decimal ds)"
  using stoi_digits[OF assms(1,2)] assms(3) by simp

lemma parseDateOnly_format:
  assumes y: "ys \<noteq> []" "list_all isdigit ys" "decimal ys \<le> INT_MAX"
    and m: "ms \<noteq> []" "list_all isdigit ms" "decimal ms \<le> INT_MAX"
    and d: "ds \<noteq> []" "list_all isdigit ds" "decimal ds \<le> INT_MAX"
  shows "parseDateOnly (ys @ CHR ''-'' # ms @ CHR ''-'' # ds)
           = Inr (decimal ys, decimal ms, decimal ds)"
proof -
  let ?s = "ys @ CHR ''-'' # ms @ CHR ''-'' # ds"
  have first: "find_char ?s CHR ''-'' = Some (length ys)"
    by (rule find_char_first) (rule digits_without[OF y(2) not_digit_separators(1)])
  have rest: "drop (Suc (length ys)) ?s = ms @ CHR ''-'' # ds" by simp
  have "find_char (ms @ CHR ''-'' # ds) CHR ''-'' = Some (length ms)"
    by (rule find_char_first) (rule digits_without[OF m(2) not_digit_separators(1)])
  then have second: "find_char_from ?s CHR ''-'' (Suc (length ys)) = Some (Suc (length ms + length ys))"
    unfolding find_char_from_def rest by simp
  have s1: "substr ?s 0 (length ys) = ys" by (simp add: substr_def)
  have s2: "substr ?s (Suc (length ys)) (length ms) = ms"
    unfolding substr_def rest by simp
  have s3: "drop (Suc (Suc (length ms + length ys))) ?s = ds" by simp
  have st: "stoi ys = Inr (decimal ys)" "stoi ms = Inr (decimal ms)" "stoi ds = Inr (decimal ds)"
    by (rule stoi_digit_string[OF y], rule stoi_digit_string[OF m], rule stoi_digit_string[OF d])
  show ?thesis
    by (simp add: parseDateOnly_def first second s1 s2 s3 st del: append.simps drop_append)
qed

lemma parseTimeOnly_format:
  assumes h: "hs \<noteq> []" "list_all isdigit hs" "decimal hs \<le> INT_MAX"
    and m: "ms \<noteq> []" "list_all isdigit ms" "decimal ms \<le> INT_MAX"
  shows "parseTimeOnly (hs @ CHR '':'' # ms) = Inr (decimal hs, decimal ms)"
proof -
  let ?s = "hs @ CHR '':'' # ms"
  have colon: "find_char ?s CHR '':'' = Some (length hs)"
    by (rule find_char_first) (rule digits_without[OF h(2) not_digit_separators(3)])
  have s1: "substr ?s 0 (length hs) = hs" by (simp add: substr_def)
  have s2: "drop (Suc (length hs)) ?s = ms" by simp
  have st: "stoi hs = Inr (decimal hs)" "stoi ms = Inr (decimal ms)"
    by (rule stoi_digit_string[OF h], rule stoi_digit_string[OF m])
  show ?thesis
    by (simp add: parseTimeOnly_def colon s1 s2 st del: append.simps drop_append)
qed

lemma drop_past_separator: "drop (length xs + 1) (xs @ c # ys) = ys"
  by simp

lemma substr_prefix: "substr (xs @ ys) 0 (length xs) = xs"
  by (simp add: substr_def)

lemma trim_id:
  assumes "s \<noteq> []" and "hd s \<notin> set [CHR '' '', CHR 0x09]" and "last s \<notin> set [CHR '' '', CHR 0x09]"
  shows "trim s = s"
proof -
  obtain c cs where s: "s = c # cs" using assms(1) by (cases s) auto
  have first: "find_first_not_of s [CHR '' '', CHR 0x09] = Some 0"
    using assms(2) by (simp add: s)
  obtain r rs where rv: "rev s = r # rs" using assms(1) by (cases "rev s") auto
  then have "r = last s" using assms(1) by (metis hd_rev list.sel(1))
  then have "find_first_not_of (rev s) [CHR '' '', CHR 0x09] = Some 0"
    using assms(3) by (simp add: rv)
  then have lastpos: "find_last_not_of s [CHR '' '', CHR 0x09] = Some (length s - 1)"
    by (simp add: find_last_not_of_def)
  have "take (length s - 1 + 1) s = s" using assms(1) by simp
  then show ?thesis
    using lastpos by (simp add: trim_def first del: find_first_not_of.simps)
qed

lemma digits_hd_last:
  assumes "ds \<noteq> []" and "list_all isdigit ds"
  shows "isdigit (hd ds) \<and> isdigit (last ds)"
  using assms by (auto simp: list_all_iff)

lemma DateTime_of_string_format:
  assumes y: "ys \<noteq> []" "list_all isdigit ys" "decimal ys \<le> INT_MAX"
    and m: "ms \<noteq> []" "list_all isdigit ms" "decimal ms \<le> INT_MAX"
    and d: "ds \<noteq> []" "list_all isdigit ds" "decimal ds \<le> INT_MAX"
    and h: "hs \<noteq> []" "list_all isdigit hs" "decimal hs \<le> INT_MAX"
    and mi: "ns \<noteq> []" "list_all isdigit ns" "decimal ns \<le> INT_MAX"
    and valid: "isValid \<lparr>year = decimal ys, month = decimal ms, day = decimal ds,
                        hour = decimal hs, minute = decimal ns\<rparr>"
  shows "DateTime_of_string (ys @ CHR ''-'' # ms @ CHR ''-'' # ds @ CHR '' '' # hs @ CHR '':'' # ns)
           = Inr \<lparr>year = decimal ys, month = decimal ms, day = decimal ds,
                  hour = decimal hs, minute = decimal ns\<rparr>"
proof -
  let ?date = "ys @ CHR ''-'' # ms @ CHR ''-'' # ds"
  let ?time = "hs @ CHR '':'' # ns"
  let ?s = "?date @ CHR '' '' # ?time"
  have blank: "\<not> isdigit c \<longleftrightarrow> True" if "c \<in> set [CHR '' '', CHR 0x09]" for c
    using that by (auto simp: isdigit_def)
  have hd_s: "hd ?s = hd ys" using y(1) by simp
  have last_s: "last ?s = last ns" using mi(1) by simp
  have "hd ys \<notin> set [CHR '' '', CHR 0x09]"
    using digits_hd_last[OF y(1,2)] blank by blast
  moreover have "last ns \<notin> set [CHR '' '', CHR 0x09]"
    using digits_hd_last[OF mi(1,2)] blank by blast
  ultimately have tr: "trim ?s = ?s"
    using hd_s last_s by (intro trim_id) simp_all
  have "CHR '' '' \<notin> set ?date"
    using digits_without[OF y(2) not_digit_separators(2)]
      digits_without[OF m(2) not_digit_separators(2)]
      digits_without[OF d(2) not_digit_separators(2)]
    by simp
  then have sp: "find_char ?s CHR '' '' = Some (length ?date)"
    by (rule find_char_first)
  have s1: "substr ?s 0 (length ?date) = ?date" by (rule substr_prefix)
  have s2: "drop (length ?date + 1) ?s = ?time" by (rule drop_past_separator)
  have pd: "parseDateOnly ?date = Inr (decimal ys, decimal ms, decimal ds)"
    by (rule parseDateOnly_format[OF y m d])
  have pt: "parseTimeOnly ?time = Inr (decimal hs, decimal ns)"
    by (rule parseTimeOnly_format[OF h mi])
  have "DateTime_of_string ?s
          = Inr \<lparr>year = decimal ys, month = decimal ms, day = decimal ds,
                 hour = decimal hs, minute = decimal ns\<rparr>"
    unfolding DateTime_of_string_def tr Let_def sp option.case s1 s2 pd pt
    using valid by simp
  then show ?thesis by simp
qed

lemma isValid_bounds:
  assumes "isValid t"
  shows "0 \<le> year t \<and> 1 \<le> month t \<and> month t \<le> 12 \<and> 1 \<le> day t \<and> day t \<le> 31
         \<and> 0 \<le> hour t \<and> hour t \<le> 23 \<and> 0 \<le> minute t \<and> minute t \<le> 59"
proof (rule ccontr)
  assume "\<not> ?thesis"
  then have "year t < 0 \<or> month t < 1 \<or> month t > 12 \<or> day t < 1 \<or> day t > 31
         \<or> hour t < 0 \<or> hour t > 23 \<or> minute t < 0 \<or> minute t > 59"
    by linarith
  then have "\<not> isValid t" by (simp add: isValid_def)
  with assms show False by simp
qed

text \<open>A valid date and time whose year is an \<open>int\<close> is read back from its string.\<close>

lemma DateTime_round_trip:
  assumes "isValid t" and "year t \<le> INT_MAX"
  shows "DateTime_of_string (toString t) = Inr t"
proof -
  from isValid_bounds[OF assms(1)] have
    b: "0 \<le> year t" "1 \<le> month t" "month t \<le> 12" "1 \<le> day t" "day t \<le> 31"
       "0 \<le> hour t" "hour t \<le> 23" "0 \<le> minute t" "minute t \<le> 59"
    by simp_all
  let ?ys = "nat_to_string (nat (year t))"
  have ys: "?ys \<noteq> []" "list_all isdigit ?ys" "decimal ?ys \<le> INT_MAX" and dy: "decimal ?ys = year t"
    using nat_to_string_digits[of "nat (year t)"] b(1) assms(2)
    by (simp_all add: decimal_nat_to_string)
  have small: "n \<le> INT_MAX" if "n < 100" for n :: int
    using that by (simp add: INT_MAX_def)
  have two: "pad2 n \<noteq> []" "list_all isdigit (pad2 n)" "decimal (pad2 n) \<le> INT_MAX"
    "decimal (pad2 n) = n" if "0 \<le> n" "n < 100" for n
  proof -
    from pad2_props[OF that] have p: "length (pad2 n) = 2" "list_all isdigit (pad2 n)"
      "decimal (pad2 n) = n" by simp_all
    show "pad2 n \<noteq> []" using p(1) by auto
    show "list_all isdigit (pad2 n)" by (rule p(2))
    show "decimal (pad2 n) = n" by (rule p(3))
    show "decimal (pad2 n) \<le> INT_MAX" using p(3) small[OF that(2)] by simp
  qed
  have mo: "0 \<le> month t" "month t < 100" and da: "0 \<le> day t" "day t < 100"
    and ho: "0 \<le> hour t" "hour t < 100" and mn: "0 \<le> minute t" "minute t < 100"
    using b by simp_all
  have str: "toString t = ?ys @ CHR ''-'' # pad2 (month t) @ CHR ''-'' # pad2 (day t)
                           @ CHR '' '' # pad2 (hour t) @ CHR '':'' # pad2 (minute t)"
    using b(1) by (simp add: toString_def to_string_def)
  have eta: "\<lparr>year = year t, month = month t, day = day t, hour = hour t, minute = minute t\<rparr> = t"
    by (cases t) simp
  have valid: "isValid \<lparr>year = decimal ?ys, month = decimal (pad2 (month t)),
                        day = decimal (pad2 (day t)), hour = decimal (pad2 (hour t)),
                        minute = decimal (pad2 (minute t))\<rparr>"
    using assms(1) by (simp add: dy two(4)[OF mo] two(4)[OF da] two(4)[OF ho] two(4)[OF mn] eta)
  have "DateTime_of_string (toString t)
          = Inr \<lparr>year = decimal ?ys, month = decimal (pad2 (month t)),
                 day = decimal (pad2 (day t)), hour = decimal (pad2 (hour t)),
                 minute = decimal (pad2 (minute t))\<rparr>"
    unfolding str
    by (rule DateTime_of_string_format[OF ys two(1,2,3)[OF mo] two(1,2,3)[OF da]
          two(1,2,3)[OF ho] two(1,2,3)[OF mn] valid])
  then show ?thesis
    by (simp add: dy two(4)[OF mo] two(4)[OF da] two(4)[OF ho] two(4)[OF mn] eta)
qed

subsection \<open>Flights and reservations\<close>

lemma get_all_strings: "get_all get_string (map JString xs) = Inr xs"
  by (induction xs) simp_all

lemma get_all_bools: "get_all get_bool (map JBool xs) = Inr xs"
  by (induction xs) simp_all

lemma get_all_rows:
  "get_all (get_vector get_bool) (map (\<lambda>row. JArray (map JBool row)) g) = Inr g"
  by (induction g) (simp_all add: get_all_bools)

text \<open>
  A flight that satisfies what its JSON constructor checks (the identifier prefix, the
  non-empty places, valid times in the right order, an aircraft and a crew in the
  repositories, a grid of the aircraft's size) is read back as it was.
\<close>

lemma flight_json_round_trip:
  assumes "take 3 (flightId f) = ''FL-''" and "origin f \<noteq> []" and "destination f \<noteq> []"
    and "isValid (departureTime f)" and "year (departureTime f) \<le> INT_MAX"
    and "isValid (arrivalTime f)" and "year (arrivalTime f) \<le> INT_MAX"
    and "\<not> DateTime_le (arrivalTime f) (departureTime f)"
    and "acs (flightAircraftId f) = Some a"
    and "crew_exist crew (crewMemberIds f)"
    and "seatMap f \<noteq> []"
    and "int (length (seatMap f)) = numOfRows a"
    and "int (length (seatMap f ! 0)) = numOfRowSeats a"
  shows "FlightModel_from_json acs crew (FlightModel_to_json f) = Inr f"
proof -
  have dep: "DateTime_of_string (toString (departureTime f)) = Inr (departureTime f)"
    by (rule DateTime_round_trip[OF assms(4,5)])
  have arr: "DateTime_of_string (toString (arrivalTime f)) = Inr (arrivalTime f)"
    by (rule DateTime_round_trip[OF assms(6,7)])
  have eta: "\<lparr>flightId = flightId f, origin = origin f, destination = destination f,
              departureTime = departureTime f, arrivalTime = arrivalTime f,
              flightAircraftId = flightAircraftId f, crewMemberIds = crewMemberIds f,
              seatMap = seatMap f\<rparr> = f"
    by (cases f) simp
  show ?thesis
    using assms(1,2,3,4,6,8,9,10,11,12,13)
    by (simp add: FlightModel_from_json_def FlightModel_to_json_def has_required_keys_def
        get_at_def substr_def dep arr get_all_strings get_all_rows eta Let_def)
qed

text \<open>So is a reservation, when its flight, passenger and payment are stored and its seat
  is a cell of the flight's grid; reading it writes that cell.\<close>

lemma reservation_json_round_trip:
  assumes "take 4 (reservationId r) = ''RES-''"
    and "flights w (reservationFlightId r) = Some flight"
    and "users w (passengerId r) \<noteq> None"
    and "getSeatStatus (aircrafts w) flight (seatNumber r) = Inr b"
    and "payments w (reservationPaymentId r) \<noteq> None"
  shows "fst (ReservationModel_from_json w (ReservationModel_to_json r)) = Inr r"
proof -
  obtain flight' where
    set: "setSeatStatus (aircrafts w) flight (seatNumber r) (status r = CONFIRMED) = Inr flight'"
    using setSeatStatus_returns_if_cell_exists[OF assms(4)] by blast
  have fields: "reservation_fields w (ReservationModel_to_json r)
                = Inr (reservationId r, reservationFlightId r, passengerId r, status r, seatNumber r)"
    using assms(1,2,3)
    by (cases "status r")
       (simp_all add: reservation_fields_def ReservationModel_to_json_def has_required_keys_def
          get_at_def substr_def)
  have eta: "\<lparr>reservationId = reservationId r, reservationFlightId = reservationFlightId r,
              passengerId = passengerId r, seatNumber = seatNumber r, status = status r,
              reservationPaymentId = reservationPaymentId r\<rparr> = r"
    by (cases r) simp
  have pay: "get_at get_string (ReservationModel_to_json r) ''paymentId''
             = Inr (reservationPaymentId r)"
    by (simp add: ReservationModel_to_json_def get_at_def)
  show ?thesis
    using assms(2,5) set
    by (simp add: ReservationModel_from_json_def fields pay eta Let_def)
qed

text \<open>And so is a payment whose status is \<open>COMPLETED\<close> or \<open>REFUNDED\<close>, when the strategy
  factory accepts its own details.\<close>

lemma payment_json_round_trip:
  assumes "take 4 (paymentId p) = ''PAY-''"
    and "users w (paymentPassengerId p) \<noteq> None"
    and "\<not> le_floating (amount p) (Finite 0)"
    and "paymentStrategy p = Some s"
    and "createPaymentStrategy (getType s) (getDetails s) = Inr s"
    and "isValid (paymentDate p)" and "year (paymentDate p) \<le> INT_MAX"
    and "paymentStatus p = COMPLETED \<or> paymentStatus p = REFUNDED"
  shows "PaymentModel_from_json w (PaymentModel_to_json p) = Inr p"
proof -
  have date: "DateTime_of_string (toString (paymentDate p)) = Inr (paymentDate p)"
    by (rule DateTime_round_trip[OF assms(6,7)])
  have eta: "\<lparr>paymentId = paymentId p, paymentPassengerId = paymentPassengerId p,
              amount = amount p, paymentStrategy = Some s, paymentDate = paymentDate p,
              paymentStatus = paymentStatus p\<rparr> = p"
    using assms(4) by (cases p) simp
  from assms(8) show ?thesis
  proof
    assume st: "paymentStatus p = COMPLETED"
    show ?thesis
      using assms(1,2,3,4,5,6) eta
      by (simp add: PaymentModel_from_json_def PaymentModel_to_json_def has_required_keys_def
          get_at_def substr_def date st)
  next
    assume st: "paymentStatus p = REFUNDED"
    show ?thesis
      using assms(1,2,3,4,5,6) eta
      by (simp add: PaymentModel_from_json_def PaymentModel_to_json_def has_required_keys_def
          get_at_def substr_def date st)
  qed
qed

end
